theory Spec2Isabelle
  imports Main "HOL-Library.Word"
begin

unbundle bit_operations_syntax

section \<open>Values of the host language\<close>

text \<open>
  The module \<open>crypto.ts\<close> is a thin layer over the Node runtime: every byte it handles
  is a \<open>Buffer\<close>, every fallible step throws (or rejects a promise). A \<open>Buffer\<close> is a
  list of bytes; \<open>string | Buffer\<close> is a tagged union; a thrown \<open>Error\<close> and a rejected
  promise are both the left summand of a result.
\<close>

type_synonym byte = "8 word"
type_synonym buffer = "byte list"

datatype binary_like = Str string | Buf buffer

text \<open>
  What a caller can hand to \<open>encrypt\<close> (typed \<open>any\<close>) and to the \<open>aad\<close> parameter
  (typed \<open>string\<close>, but checked at run time). Numbers carry an integer: no definition
  below looks inside a number.
\<close>

datatype js_value =
    JSUndefined
  | JSNull
  | JSBoolean bool
  | JSNumber int
  | JSString string
  | JSArray "js_value list"
  | JSObject "(string \<times> js_value) list"
  | JSFunction

text \<open>
  The errors of the module, one constructor for each place that throws. The source throws
  plain \<open>Error\<close> objects; the constructor records which check threw, the string is the
  message of the source. \<open>AuthenticationError\<close> is what \<open>decipher.final()\<close> throws
  (``Unsupported state or unable to authenticate data''), \<open>PrimitiveError\<close> what the
  runtime throws when it refuses a key, an IV or a tag, or what the \<open>pbkdf2\<close> callback
  receives as \<open>err\<close>, and \<open>SyntaxError\<close> what \<open>JSON.parse\<close> throws.
\<close>

datatype error =
    ConfigurationError string
  | ValidationError string
  | SerializationError string
  | AuthenticationError
  | PrimitiveError string
  | SyntaxError

section \<open>The runtime the module calls\<close>

text \<open>
  The primitives of Node that the module calls are parameters of the model: the source
  fixes which primitive is called with which arguments and in which order, not what is
  inside AES, GHASH, SHA-512 or the JSON codec. Each field is one observable function of
  the runtime.
\<close>

record platform =
  random_source :: "nat \<Rightarrow> byte"
    \<comment> \<open>the stream \<open>crypto.randomBytes\<close> hands out, by position\<close>
  json_stringify :: "js_value \<Rightarrow> string option"
    \<comment> \<open>\<open>JSON.stringify\<close>; \<open>None\<close> is \<open>undefined\<close>\<close>
  json_parse :: "string \<Rightarrow> js_value option"
    \<comment> \<open>\<open>JSON.parse\<close>; \<open>None\<close> is a thrown \<open>SyntaxError\<close>\<close>
  utf8_bytes :: "string \<Rightarrow> buffer"
    \<comment> \<open>\<open>Buffer.from(s, 'utf8')\<close>\<close>
  utf8_string :: "buffer \<Rightarrow> string"
    \<comment> \<open>decoding bytes with output encoding \<open>'utf8'\<close>\<close>
  from_base64 :: "string \<Rightarrow> buffer"
    \<comment> \<open>\<open>Buffer.from(s, 'base64')\<close>, the lenient decoder of Node\<close>
  pbkdf2Sync :: "binary_like \<Rightarrow> buffer \<Rightarrow> nat \<Rightarrow> nat \<Rightarrow> string \<Rightarrow> buffer"
  pbkdf2 :: "binary_like \<Rightarrow> buffer \<Rightarrow> nat \<Rightarrow> nat \<Rightarrow> string \<Rightarrow> string + buffer"
    \<comment> \<open>what the callback receives: \<open>Inl err\<close> or \<open>Inr key\<close>\<close>
  cipher_accepts :: "string \<Rightarrow> buffer \<Rightarrow> buffer \<Rightarrow> bool"
    \<comment> \<open>\<open>createCipheriv\<close>/\<open>createDecipheriv\<close> take this algorithm, key and IV\<close>
  cipher_output :: "string \<Rightarrow> buffer \<Rightarrow> buffer \<Rightarrow> buffer \<Rightarrow> buffer"
    \<comment> \<open>the ciphertext of algorithm, key, IV, plaintext\<close>
  cipher_tag :: "string \<Rightarrow> buffer \<Rightarrow> buffer \<Rightarrow> buffer option \<Rightarrow> buffer \<Rightarrow> buffer"
    \<comment> \<open>\<open>getAuthTag()\<close> after algorithm, key, IV, AAD (if set), plaintext\<close>
  tag_accepts :: "string \<Rightarrow> buffer \<Rightarrow> bool"
    \<comment> \<open>\<open>setAuthTag\<close> takes a tag of this shape\<close>
  decipher_output :: "string \<Rightarrow> buffer \<Rightarrow> buffer \<Rightarrow> buffer \<Rightarrow> buffer"
    \<comment> \<open>the plaintext of algorithm, key, IV, ciphertext\<close>
  decipher_verifies :: "string \<Rightarrow> buffer \<Rightarrow> buffer \<Rightarrow> buffer option \<Rightarrow> buffer \<Rightarrow> buffer \<Rightarrow> bool"
    \<comment> \<open>\<open>final()\<close> accepts: algorithm, key, IV, AAD (if set), ciphertext, expected tag\<close>

text \<open>
  Calls into the runtime are effects. The world records how many random bytes have been
  drawn and, in order, every call of the random source, the key derivation and the
  cipher constructors.
\<close>

datatype event =
    RandomBytes nat
  | Pbkdf2Sync binary_like buffer
  | Pbkdf2 binary_like buffer
  | CreateCipheriv buffer buffer
  | CreateDecipheriv buffer buffer

record world =
  drawn :: nat
  trace :: "event list"

type_synonym 'a io = "world \<Rightarrow> (error + 'a) \<times> world"

definition ret :: "'a \<Rightarrow> 'a io" where
  "ret x = (\<lambda>w. (Inr x, w))"

definition throw :: "error \<Rightarrow> 'a io" where
  "throw e = (\<lambda>w. (Inl e, w))"

definition bind :: "'a io \<Rightarrow> ('a \<Rightarrow> 'b io) \<Rightarrow> 'b io" where
  "bind m f = (\<lambda>w. case m w of (Inl e, w') \<Rightarrow> (Inl e, w') | (Inr x, w') \<Rightarrow> f x w')"

definition lift :: "error + 'a \<Rightarrow> 'a io" where
  "lift r = (\<lambda>w. (r, w))"

definition emit :: "event \<Rightarrow> unit io" where
  "emit ev = (\<lambda>w. (Inr (), w\<lparr>trace := trace w @ [ev]\<rparr>))"

definition randomBytes :: "platform \<Rightarrow> nat \<Rightarrow> buffer io" where
  "randomBytes P n =
     (\<lambda>w. (Inr (map (random_source P) [drawn w ..< drawn w + n]),
           w\<lparr>drawn := drawn w + n, trace := trace w @ [RandomBytes n]\<rparr>))"

section \<open>Constants\<close>

text \<open>
  The constants of the module. \<open>ENCRYPTION_RESULT_ENCODING\<close> is \<open>'base64'\<close>: where the
  source passes it, the model encodes with \<open>base64_encode\<close> and decodes with the
  runtime's \<open>from_base64\<close>.
\<close>

definition IV_LENGTH_IN_BYTES :: nat where "IV_LENGTH_IN_BYTES = 12"
definition SALT_LENGTH_IN_BYTES :: nat where "SALT_LENGTH_IN_BYTES = 64"
definition KEY_LENGTH_IN_BYTES :: nat where "KEY_LENGTH_IN_BYTES = 32"
definition KEY_ITERATIONS :: nat where "KEY_ITERATIONS = 10000"
definition KEY_DIGEST :: string where "KEY_DIGEST = ''sha512''"
definition CIPHER_ALGORITHM :: string where "CIPHER_ALGORITHM = ''aes-256-gcm''"

section \<open>Validation\<close>

text \<open>
  The private functions of the module keep their names without the leading underscore
  (\<open>_validateOpts\<close> is \<open>validateOpts\<close>, and so on).

  \<open>CryptoOptions\<close>: the property \<open>encryptionKey\<close> may be missing (\<open>makeCryptoWith({})\<close>
  in the tests). \<open>!encryptionKey\<close> is JavaScript truthiness: \<open>undefined\<close> and the empty
  string are falsy, every object is truthy, an empty \<open>Buffer\<close> included.
\<close>

record CryptoOptions =
  encryptionKey :: "binary_like option"

fun falsy :: "binary_like option \<Rightarrow> bool" where
  "falsy None = True"
| "falsy (Some (Str s)) = (s = [])"
| "falsy (Some (Buf b)) = False"

definition validateOpts :: "CryptoOptions \<Rightarrow> error + unit" where
  "validateOpts opts =
     (if falsy (encryptionKey opts) then Inl (ConfigurationError ''encryptionKey is required'')
      else Inr ())"

text \<open>\<open>aad == null\<close> holds of \<open>undefined\<close> and of \<open>null\<close>, and of nothing else.\<close>

fun eq_null :: "js_value \<Rightarrow> bool" where
  "eq_null JSUndefined = True"
| "eq_null JSNull = True"
| "eq_null v = False"

fun validateAAD :: "js_value \<Rightarrow> error + unit" where
  "validateAAD aad =
     (if eq_null aad then Inr ()
      else case aad of
        JSString s \<Rightarrow>
          (if length s = 0 then Inl (ValidationError ''AAD cannot be an empty string'')
           else Inr ())
      | _ \<Rightarrow> Inl (ValidationError ''AAD must be a string''))"

section \<open>Buffers\<close>

text \<open>
  \<open>buf.slice(start, end)\<close> and \<open>buf.slice(start)\<close> for the non-negative offsets the
  module uses: both offsets are clamped to the length of the buffer, and an empty range
  gives the empty buffer.
\<close>

definition buf_slice :: "buffer \<Rightarrow> nat \<Rightarrow> nat \<Rightarrow> buffer" where
  "buf_slice b start fin =
     (let s = min start (length b); e = min fin (length b)
      in if s < e then take (e - s) (drop s b) else [])"

definition buf_slice_from :: "buffer \<Rightarrow> nat \<Rightarrow> buffer" where
  "buf_slice_from b start = buf_slice b start (length b)"

text \<open>
  \<open>buf.toString('base64')\<close> is the standard base64 encoding with padding (RFC 4648,
  section 4): three bytes give four characters of the alphabet, a last group of one or
  two bytes is padded with \<open>=\<close>.
\<close>

definition base64_alphabet :: string where
  "base64_alphabet = ''ABCDEFGHIJKLMNOPQRSTUVWXYZabcdefghijklmnopqrstuvwxyz0123456789+/''"

definition base64_char :: "nat \<Rightarrow> char" where
  "base64_char n = base64_alphabet ! (n mod 64)"

fun base64_encode :: "buffer \<Rightarrow> string" where
  "base64_encode [] = []"
| "base64_encode [a] =
     [base64_char (unat a div 4), base64_char ((unat a mod 4) * 16), CHR ''='', CHR ''='']"
| "base64_encode [a, b] =
     [base64_char (unat a div 4), base64_char ((unat a mod 4) * 16 + unat b div 16),
      base64_char ((unat b mod 16) * 4), CHR ''='']"
| "base64_encode (a # b # c # rest) =
     [base64_char (unat a div 4), base64_char ((unat a mod 4) * 16 + unat b div 16),
      base64_char ((unat b mod 16) * 4 + unat c div 64), base64_char (unat c mod 64)]
     @ base64_encode rest"

text \<open>\<open>asBuffer\<close>: a \<open>Buffer\<close> is taken as it is, a string is decoded from base64.\<close>

definition asBuffer :: "platform \<Rightarrow> binary_like \<Rightarrow> buffer" where
  "asBuffer P encryptedOutput =
     (case encryptedOutput of Buf b \<Rightarrow> b | Str s \<Rightarrow> from_base64 P s)"

section \<open>Random values, key derivation, serialization\<close>

definition generateSalt :: "platform \<Rightarrow> buffer io" where
  "generateSalt P = randomBytes P SALT_LENGTH_IN_BYTES"

definition generateIV :: "platform \<Rightarrow> buffer io" where
  "generateIV P = randomBytes P IV_LENGTH_IN_BYTES"

text \<open>
  \<open>_generateKeySync\<close> and \<open>_generateKey\<close>. A salt given as a string is decoded from
  base64 first. The runtime returns the key as a \<open>Buffer\<close>, so the branch
  \<open>!Buffer.isBuffer(key)\<close> is not taken. The asynchronous form rejects with the \<open>err\<close>
  of the callback.
\<close>

definition generateKeySync :: "platform \<Rightarrow> binary_like \<Rightarrow> binary_like \<Rightarrow> buffer io" where
  "generateKeySync P encKey salt =
     (let salt' = (case salt of Buf b \<Rightarrow> b | Str s \<Rightarrow> from_base64 P s)
      in bind (emit (Pbkdf2Sync encKey salt')) (\<lambda>_.
         ret (pbkdf2Sync P encKey salt' KEY_ITERATIONS KEY_LENGTH_IN_BYTES KEY_DIGEST)))"

definition generateKey :: "platform \<Rightarrow> binary_like \<Rightarrow> binary_like \<Rightarrow> buffer io" where
  "generateKey P encKey salt =
     (let salt' = (case salt of Buf b \<Rightarrow> b | Str s \<Rightarrow> from_base64 P s)
      in bind (emit (Pbkdf2 encKey salt')) (\<lambda>_.
         case pbkdf2 P encKey salt' KEY_ITERATIONS KEY_LENGTH_IN_BYTES KEY_DIGEST of
           Inl err \<Rightarrow> throw (PrimitiveError err)
         | Inr key \<Rightarrow> ret key))"

definition serialize :: "platform \<Rightarrow> js_value \<Rightarrow> error + string" where
  "serialize P serializable =
     (case json_stringify P serializable of
        None \<Rightarrow> Inl (SerializationError ''Object to be encrypted must be serializable'')
      | Some serializedObj \<Rightarrow> Inr serializedObj)"

section \<open>The cipher object\<close>

text \<open>
  The object \<open>createCipheriv\<close> and \<open>createDecipheriv\<close> return: what it was created
  with, the AAD and the tag set on it, and the data \<open>update\<close> was fed.
\<close>

record cipher =
  c_algorithm :: string
  c_key :: buffer
  c_iv :: buffer
  c_aad :: "buffer option"
  c_authTag :: "buffer option"
  c_input :: buffer

definition new_cipher :: "string \<Rightarrow> buffer \<Rightarrow> buffer \<Rightarrow> cipher" where
  "new_cipher algorithm key iv =
     \<lparr>c_algorithm = algorithm, c_key = key, c_iv = iv, c_aad = None, c_authTag = None,
      c_input = []\<rparr>"

definition createCipheriv :: "platform \<Rightarrow> string \<Rightarrow> buffer \<Rightarrow> buffer \<Rightarrow> cipher io" where
  "createCipheriv P algorithm key iv =
     bind (emit (CreateCipheriv key iv)) (\<lambda>_.
       if cipher_accepts P algorithm key iv then ret (new_cipher algorithm key iv)
       else throw (PrimitiveError ''Invalid key length or IV''))"

definition createDecipheriv :: "platform \<Rightarrow> string \<Rightarrow> buffer \<Rightarrow> buffer \<Rightarrow> cipher io" where
  "createDecipheriv P algorithm key iv =
     bind (emit (CreateDecipheriv key iv)) (\<lambda>_.
       if cipher_accepts P algorithm key iv then ret (new_cipher algorithm key iv)
       else throw (PrimitiveError ''Invalid key length or IV''))"

definition setAAD :: "cipher \<Rightarrow> buffer \<Rightarrow> cipher" where
  "setAAD c a = c\<lparr>c_aad := Some a\<rparr>"

definition setAuthTag :: "platform \<Rightarrow> cipher \<Rightarrow> buffer \<Rightarrow> error + cipher" where
  "setAuthTag P c tag =
     (if tag_accepts P (c_algorithm c) tag then Inr (c\<lparr>c_authTag := Some tag\<rparr>)
      else Inl (PrimitiveError ''Invalid authentication tag length''))"

text \<open>
  On the cipher: \<open>update(data)\<close> returns the ciphertext, \<open>final()\<close> returns nothing
  more (GCM is a stream mode), \<open>getAuthTag()\<close> returns the tag of what was processed.
\<close>

definition cipher_update :: "platform \<Rightarrow> cipher \<Rightarrow> buffer \<Rightarrow> buffer \<times> cipher" where
  "cipher_update P c data =
     (cipher_output P (c_algorithm c) (c_key c) (c_iv c) data, c\<lparr>c_input := data\<rparr>)"

definition cipher_final :: "platform \<Rightarrow> cipher \<Rightarrow> buffer" where
  "cipher_final P c = []"

definition getAuthTag :: "platform \<Rightarrow> cipher \<Rightarrow> buffer" where
  "getAuthTag P c = cipher_tag P (c_algorithm c) (c_key c) (c_iv c) (c_aad c) (c_input c)"

text \<open>
  On the decipher: \<open>update(text, undefined, 'utf8')\<close> returns the plaintext decoded as
  UTF-8; \<open>final('utf8')\<close> checks the tag and throws when it does not match (or when none
  was set), and returns the empty string otherwise.
\<close>

definition decipher_update :: "platform \<Rightarrow> cipher \<Rightarrow> buffer \<Rightarrow> string \<times> cipher" where
  "decipher_update P c text =
     (utf8_string P (decipher_output P (c_algorithm c) (c_key c) (c_iv c) text),
      c\<lparr>c_input := text\<rparr>)"

definition decipher_final :: "platform \<Rightarrow> cipher \<Rightarrow> error + string" where
  "decipher_final P c =
     (case c_authTag c of
        None \<Rightarrow> Inl AuthenticationError
      | Some tag \<Rightarrow>
          if decipher_verifies P (c_algorithm c) (c_key c) (c_iv c) (c_aad c) (c_input c) tag
          then Inr [] else Inl AuthenticationError)"

section \<open>Seal and open\<close>

text \<open>
  The module-level \<open>encrypt\<close> and \<open>decrypt\<close>. Their parameter \<open>aad?: string\<close> is a
  string or absent; the public operations below validate what the caller gave before
  they pass it on.
\<close>

definition encrypt :: "platform \<Rightarrow> string \<Rightarrow> buffer \<Rightarrow> buffer \<Rightarrow> buffer \<Rightarrow> string option \<Rightarrow> string io" where
  "encrypt P serializedInput iv key salt aad =
     bind (createCipheriv P CIPHER_ALGORITHM key iv) (\<lambda>cipher.
       let cipher = (case aad of None \<Rightarrow> cipher | Some a \<Rightarrow> setAAD cipher (utf8_bytes P a));
           (out, cipher) = cipher_update P cipher (utf8_bytes P serializedInput);
           encrypted = out @ cipher_final P cipher;
           tag = getAuthTag P cipher
       in ret (base64_encode (salt @ iv @ tag @ encrypted)))"

definition decrypt :: "platform \<Rightarrow> buffer \<Rightarrow> buffer \<Rightarrow> string option \<Rightarrow> js_value io" where
  "decrypt P key outputBytes aad =
     (let iv = buf_slice outputBytes SALT_LENGTH_IN_BYTES (SALT_LENGTH_IN_BYTES + IV_LENGTH_IN_BYTES);
          tag = buf_slice outputBytes (SALT_LENGTH_IN_BYTES + IV_LENGTH_IN_BYTES)
                  (SALT_LENGTH_IN_BYTES + IV_LENGTH_IN_BYTES + 16);
          text = buf_slice_from outputBytes (SALT_LENGTH_IN_BYTES + IV_LENGTH_IN_BYTES + 16)
      in bind (createDecipheriv P CIPHER_ALGORITHM key iv) (\<lambda>decipher.
         bind (lift (setAuthTag P decipher tag)) (\<lambda>decipher.
           let decipher = (case aad of None \<Rightarrow> decipher
                           | Some a \<Rightarrow> setAAD decipher (utf8_bytes P a));
               (out, decipher) = decipher_update P decipher text
           in bind (lift (decipher_final P decipher)) (\<lambda>fin.
                let decrypted = out @ fin
                in case json_parse P decrypted of
                     None \<Rightarrow> throw SyntaxError
                   | Some v \<Rightarrow> ret v))))"

section \<open>The codec\<close>

text \<open>
  The value of \<open>aad\<close> as the module-level functions receive it once \<open>_validateAAD\<close>
  has passed: a string, or absent for \<open>undefined\<close> and \<open>null\<close>.
\<close>

fun aad_of :: "js_value \<Rightarrow> string option" where
  "aad_of (JSString s) = Some s"
| "aad_of v = None"

text \<open>
  The four operations of the object \<open>makeCryptoWith\<close> returns, with the passphrase they
  close over as a parameter. An \<open>async\<close> function that throws rejects its promise; both
  are \<open>Inl\<close>. The statements are in the order of the source: the asynchronous
  \<open>encrypt\<close> draws the salt, serializes, then draws the IV; \<open>encryptSync\<close> serializes,
  draws the IV, then draws the salt.
\<close>

definition Crypto_encrypt :: "platform \<Rightarrow> binary_like \<Rightarrow> js_value \<Rightarrow> js_value \<Rightarrow> string io" where
  "Crypto_encrypt P encKey input aad =
     bind (lift (validateAAD aad)) (\<lambda>_.
     bind (generateSalt P) (\<lambda>salt.
     bind (lift (serialize P input)) (\<lambda>serializedInput.
     bind (generateIV P) (\<lambda>iv.
     bind (generateKey P encKey (Buf salt)) (\<lambda>key.
     encrypt P serializedInput iv key salt (aad_of aad))))))"

definition Crypto_decrypt :: "platform \<Rightarrow> binary_like \<Rightarrow> binary_like \<Rightarrow> js_value \<Rightarrow> js_value io" where
  "Crypto_decrypt P encKey encryptedOutput aad =
     bind (lift (validateAAD aad)) (\<lambda>_.
       let outputBytes = asBuffer P encryptedOutput;
           salt = buf_slice outputBytes 0 SALT_LENGTH_IN_BYTES
       in bind (generateKey P encKey (Buf salt)) (\<lambda>key.
          decrypt P key outputBytes (aad_of aad)))"

definition Crypto_encryptSync :: "platform \<Rightarrow> binary_like \<Rightarrow> js_value \<Rightarrow> js_value \<Rightarrow> string io" where
  "Crypto_encryptSync P encKey input aad =
     bind (lift (validateAAD aad)) (\<lambda>_.
     bind (lift (serialize P input)) (\<lambda>serializedInput.
     bind (generateIV P) (\<lambda>iv.
     bind (generateSalt P) (\<lambda>salt.
     bind (generateKeySync P encKey (Buf salt)) (\<lambda>key.
     encrypt P serializedInput iv key salt (aad_of aad))))))"

text \<open>
  Modelled from the spec: the last statement of \<open>decryptSync\<close>. The source text of the
  function ends after the key derivation; the spec (4.6) gives the same steps for both
  forms of \<open>decrypt\<close>, ending in ``open, deserialize plaintext, return value'', which is
  the call \<open>decrypt(key, outputBytes, aad)\<close> of the asynchronous form. The four
  statements before it are the source's.
\<close>

definition Crypto_decryptSync :: "platform \<Rightarrow> binary_like \<Rightarrow> binary_like \<Rightarrow> js_value \<Rightarrow> js_value io" where
  "Crypto_decryptSync P encKey encryptedOutput aad =
     bind (lift (validateAAD aad)) (\<lambda>_.
       let outputBytes = asBuffer P encryptedOutput;
           salt = buf_slice outputBytes 0 SALT_LENGTH_IN_BYTES
       in bind (generateKeySync P encKey (Buf salt)) (\<lambda>key.
          decrypt P key outputBytes (aad_of aad)))"

record Crypto =
  encrypt_op :: "js_value \<Rightarrow> js_value \<Rightarrow> string io"
  decrypt_op :: "binary_like \<Rightarrow> js_value \<Rightarrow> js_value io"
  encryptSync_op :: "js_value \<Rightarrow> js_value \<Rightarrow> string io"
  decryptSync_op :: "binary_like \<Rightarrow> js_value \<Rightarrow> js_value io"

text \<open>
  \<open>makeCryptoWith\<close>: validate the options, then return the four operations closed over
  the passphrase. After \<open>_validateOpts\<close> the passphrase is present, so the branch for a
  missing one repeats its error and is never taken.
\<close>

definition makeCryptoWith :: "platform \<Rightarrow> CryptoOptions \<Rightarrow> error + Crypto" where
  "makeCryptoWith P opts =
     (case validateOpts opts of
        Inl e \<Rightarrow> Inl e
      | Inr _ \<Rightarrow>
          (case encryptionKey opts of
             None \<Rightarrow> Inl (ConfigurationError ''encryptionKey is required'')
           | Some k \<Rightarrow>
               Inr \<lparr>encrypt_op = Crypto_encrypt P k, decrypt_op = Crypto_decrypt P k,
                    encryptSync_op = Crypto_encryptSync P k,
                    decryptSync_op = Crypto_decryptSync P k\<rparr>))"

section \<open>What the module relies on\<close>

text \<open>
  The contracts of the runtime that the theorems below name as hypotheses, each a
  documented property of Node: the two forms of PBKDF2 derive the same key, of the
  length asked for; AES-256-GCM takes a 32-byte key with a 12-byte IV; what the cipher
  produced, the decipher takes back and accepts, under the same key, IV and AAD; the tag
  has 16 bytes and \<open>setAuthTag\<close> takes it; for a key, IV, AAD and ciphertext the tag
  check accepts at most one tag of each length (it compares the expected tag with the
  tag it computes, cut to that length); GCM does not pad; decoding base64 inverts
  encoding it; and the empty string is not JSON.
\<close>

definition kdf_agrees :: "platform \<Rightarrow> bool" where
  "kdf_agrees P \<longleftrightarrow> (\<forall>p s i n d. pbkdf2 P p s i n d = Inr (pbkdf2Sync P p s i n d))"

definition kdf_length :: "platform \<Rightarrow> bool" where
  "kdf_length P \<longleftrightarrow> (\<forall>p s i n d. length (pbkdf2Sync P p s i n d) = n)"

definition gcm_accepts :: "platform \<Rightarrow> bool" where
  "gcm_accepts P \<longleftrightarrow>
     (\<forall>k iv. length k = 32 \<and> length iv = 12 \<longrightarrow> cipher_accepts P CIPHER_ALGORITHM k iv)"

definition gcm_inverse :: "platform \<Rightarrow> bool" where
  "gcm_inverse P \<longleftrightarrow>
     (\<forall>k iv aad pt.
        decipher_output P CIPHER_ALGORITHM k iv (cipher_output P CIPHER_ALGORITHM k iv pt) = pt
      \<and> decipher_verifies P CIPHER_ALGORITHM k iv aad (cipher_output P CIPHER_ALGORITHM k iv pt)
           (cipher_tag P CIPHER_ALGORITHM k iv aad pt))"

definition gcm_tag_length :: "platform \<Rightarrow> bool" where
  "gcm_tag_length P \<longleftrightarrow>
     (\<forall>k iv aad pt. length (cipher_tag P CIPHER_ALGORITHM k iv aad pt) = 16)
   \<and> (\<forall>t. length t = 16 \<longrightarrow> tag_accepts P CIPHER_ALGORITHM t)"


definition gcm_no_padding :: "platform \<Rightarrow> bool" where
  "gcm_no_padding P \<longleftrightarrow>
     (\<forall>k iv x. length (cipher_output P CIPHER_ALGORITHM k iv x) = length x
             \<and> length (decipher_output P CIPHER_ALGORITHM k iv x) = length x)"

definition base64_inverse :: "platform \<Rightarrow> bool" where
  "base64_inverse P \<longleftrightarrow> (\<forall>b. from_base64 P (base64_encode b) = b)"

definition empty_text_invalid :: "platform \<Rightarrow> bool" where
  "empty_text_invalid P \<longleftrightarrow> utf8_string P [] = [] \<and> json_parse P [] = None"

text \<open>
  A serializable value: \<open>JSON.stringify\<close> gives it a text, the text survives the
  encoding to bytes and back, and \<open>JSON.parse\<close> of the text is the value again.
\<close>

definition is_serializable :: "platform \<Rightarrow> js_value \<Rightarrow> bool" where
  "is_serializable P v \<longleftrightarrow>
     (case json_stringify P v of
        None \<Rightarrow> False
      | Some s \<Rightarrow> utf8_string P (utf8_bytes P s) = s \<and> json_parse P s = Some v)"

section \<open>An executable runtime\<close>

text \<open>
  A small runtime on which the model runs: it has the shape of Node's primitives and
  meets the contracts above, with a toy cipher and key derivation in place of AES-GCM
  and PBKDF2, and a JSON codec for \<open>null\<close>, booleans and strings without escapes. As
  Node does, it takes an expected tag of 4, 8 or 12 to 16 bytes and checks it against
  the computed tag cut to that length.
\<close>

definition base64_index :: "char \<Rightarrow> nat" where
  "base64_index c = length (takeWhile (\<lambda>x. x \<noteq> c) base64_alphabet)"

fun base64_decode :: "string \<Rightarrow> buffer" where
  "base64_decode (c1 # c2 # c3 # c4 # rest) =
     (let i1 = base64_index c1; i2 = base64_index c2;
          i3 = base64_index c3; i4 = base64_index c4;
          b1 = (of_nat (i1 * 4 + i2 div 16) :: byte);
          b2 = (of_nat ((i2 mod 16) * 16 + i3 div 4) :: byte);
          b3 = (of_nat ((i3 mod 4) * 64 + i4) :: byte)
      in if c3 = CHR ''='' then [b1]
         else if c4 = CHR ''='' then [b1, b2]
         else [b1, b2, b3] @ base64_decode rest)"
| "base64_decode cs = []"

definition test_random :: "nat \<Rightarrow> byte" where
  "test_random i = of_nat (7 * i + 3)"

fun test_stringify :: "js_value \<Rightarrow> string option" where
  "test_stringify JSNull = Some ''null''"
| "test_stringify (JSBoolean b) = Some (if b then ''true'' else ''false'')"
| "test_stringify (JSString s) = Some ([CHR 0x22] @ s @ [CHR 0x22])"
| "test_stringify v = None"

definition test_parse :: "string \<Rightarrow> js_value option" where
  "test_parse s =
     (if s = ''null'' then Some JSNull
      else if s = ''true'' then Some (JSBoolean True)
      else if s = ''false'' then Some (JSBoolean False)
      else if 2 \<le> length s \<and> hd s = CHR 0x22 \<and> last s = CHR 0x22
        then Some (JSString (butlast (tl s)))
      else None)"

definition test_utf8_bytes :: "string \<Rightarrow> buffer" where
  "test_utf8_bytes s = map (\<lambda>c. of_nat (of_char c)) s"

definition test_utf8_string :: "buffer \<Rightarrow> string" where
  "test_utf8_string b = map (\<lambda>x. char_of (unat x)) b"

fun passphrase_bytes :: "binary_like \<Rightarrow> buffer" where
  "passphrase_bytes (Str s) = test_utf8_bytes s"
| "passphrase_bytes (Buf b) = b"

definition checksum :: "buffer \<Rightarrow> byte" where
  "checksum b = foldr (+) b 0"

definition test_kdf :: "binary_like \<Rightarrow> buffer \<Rightarrow> nat \<Rightarrow> nat \<Rightarrow> string \<Rightarrow> buffer" where
  "test_kdf p s i n d =
     map (\<lambda>j. checksum (passphrase_bytes p) + (if j < length s then s ! j else 0)) [0..<n]"

definition test_stream :: "buffer \<Rightarrow> buffer \<Rightarrow> buffer \<Rightarrow> buffer" where
  "test_stream k iv x = map (\<lambda>b. b XOR checksum (k @ iv)) x"

definition test_mac :: "buffer \<Rightarrow> buffer \<Rightarrow> buffer option \<Rightarrow> buffer \<Rightarrow> buffer" where
  "test_mac k iv aad ct =
     map (\<lambda>j. checksum (k @ iv @ (case aad of None \<Rightarrow> [] | Some a \<Rightarrow> 1 # a) @ ct) + of_nat j)
       [0..<16]"

definition test_platform :: platform where
  "test_platform =
     \<lparr>random_source = test_random,
      json_stringify = test_stringify,
      json_parse = test_parse,
      utf8_bytes = test_utf8_bytes,
      utf8_string = test_utf8_string,
      from_base64 = base64_decode,
      pbkdf2Sync = test_kdf,
      pbkdf2 = (\<lambda>p s i n d. Inr (test_kdf p s i n d)),
      cipher_accepts = (\<lambda>alg k iv. alg = ''aes-256-gcm'' \<and> length k = 32 \<and> 0 < length iv),
      cipher_output = (\<lambda>alg. test_stream),
      cipher_tag = (\<lambda>alg k iv aad pt. test_mac k iv aad (test_stream k iv pt)),
      tag_accepts = (\<lambda>alg t. length t \<in> {4, 8, 12, 13, 14, 15, 16}),
      decipher_output = (\<lambda>alg. test_stream),
      decipher_verifies = (\<lambda>alg k iv aad ct t. t = take (length t) (test_mac k iv aad ct))\<rparr>"

definition world0 :: world where
  "world0 = \<lparr>drawn = 0, trace = []\<rparr>"

section \<open>The envelope as the specification lays it out\<close>

text \<open>
  The layout in the words of the specification: the envelope is
  \<open>salt(64) || nonce(12) || tag(16) || ciphertext\<close>, and its fields are the bytes at the
  offsets \<open>[0,64)\<close>, \<open>[64,76)\<close>, \<open>[76,92)\<close> and \<open>[92,end)\<close>. These definitions are
  what the code is compared with; the code above does not use them.
\<close>

definition spec_envelope :: "platform \<Rightarrow> buffer \<Rightarrow> buffer \<Rightarrow> buffer \<Rightarrow> string option \<Rightarrow> string \<Rightarrow> buffer" where
  "spec_envelope P key salt nonce aad serialized =
     salt @ nonce
     @ cipher_tag P CIPHER_ALGORITHM key nonce (map_option (utf8_bytes P) aad)
         (utf8_bytes P serialized)
     @ cipher_output P CIPHER_ALGORITHM key nonce (utf8_bytes P serialized)"

definition spec_salt :: "buffer \<Rightarrow> buffer" where
  "spec_salt b = nths b {0..<64}"

definition spec_nonce :: "buffer \<Rightarrow> buffer" where
  "spec_nonce b = nths b {64..<76}"

definition spec_tag :: "buffer \<Rightarrow> buffer" where
  "spec_tag b = nths b {76..<92}"

definition spec_ciphertext :: "buffer \<Rightarrow> buffer" where
  "spec_ciphertext b = nths b {92..<length b}"

text \<open>
  The \<open>n\<close> bytes the random source hands out, starting \<open>i\<close> bytes after what has been
  drawn in the state \<open>w\<close>.
\<close>

definition drawn_bytes :: "platform \<Rightarrow> world \<Rightarrow> nat \<Rightarrow> nat \<Rightarrow> buffer" where
  "drawn_bytes P w i n = map (random_source P) [drawn w + i ..< drawn w + i + n]"


section \<open>Base64\<close>

text \<open>
  The encoding has four characters for every group of three bytes, the last group
  included, and the decoder of the executable runtime inverts it.
\<close>

lemma length_base64_encode: "length (base64_encode b) = 4 * ((length b + 2) div 3)"
proof (induction b rule: base64_encode.induct)
  case (4 a b c rest)
  have "(length (a # b # c # rest) + 2) div 3 = Suc ((length rest + 2) div 3)" by simp
  with 4 show ?case by simp
qed simp_all

lemma base64_alphabet_distinct: "distinct base64_alphabet"
  by (simp add: base64_alphabet_def)

lemma length_base64_alphabet: "length base64_alphabet = 64"
  by (simp add: base64_alphabet_def)

lemma base64_index_char: "base64_index (base64_char n) = n mod 64"
proof -
  let ?i = "n mod 64"
  have i: "?i < length base64_alphabet" by (simp add: length_base64_alphabet)
  have "takeWhile (\<lambda>x. x \<noteq> base64_alphabet ! ?i) base64_alphabet = take ?i base64_alphabet"
  proof (rule takeWhile_eq_take_P_nth)
    fix j assume "j < ?i" "j < length base64_alphabet"
    then show "base64_alphabet ! j \<noteq> base64_alphabet ! ?i"
      using i base64_alphabet_distinct by (simp add: nth_eq_iff_index_eq)
  qed simp
  then show ?thesis using i by (simp add: base64_index_def base64_char_def)
qed

lemma base64_char_not_pad: "base64_char n \<noteq> CHR ''=''"
proof -
  have "base64_char n \<in> set base64_alphabet"
    by (simp add: base64_char_def length_base64_alphabet)
  moreover have "CHR ''='' \<notin> set base64_alphabet" by (simp add: base64_alphabet_def)
  ultimately show ?thesis by metis
qed

lemma sextets:
  fixes x y z :: nat
  assumes "x < 256" "y < 256" "z < 256"
  shows "(x div 4) mod 64 * 4 + (((x mod 4) * 16 + y div 16) mod 64) div 16 = x"
    and "(((x mod 4) * 16 + y div 16) mod 64) mod 16 * 16 + (((y mod 16) * 4 + z div 64) mod 64) div 4 = y"
    and "(((y mod 16) * 4 + z div 64) mod 64) mod 4 * 64 + (z mod 64) mod 64 = z"
proof -
  have a: "x div 4 < 64" using assms by simp
  have b: "y div 16 < 16" using assms by simp
  have c: "z div 64 < 4" using assms by simp
  have s2: "(x mod 4) * 16 + y div 16 < 64" using b by simp
  have s3: "(y mod 16) * 4 + z div 64 < 64" using c by simp
  have d2: "((x mod 4) * 16 + y div 16) div 16 = x mod 4" using b by simp
  have m2: "((x mod 4) * 16 + y div 16) mod 16 = y div 16" using b by simp
  have d3: "((y mod 16) * 4 + z div 64) div 4 = y mod 16" using c by simp
  have m3: "((y mod 16) * 4 + z div 64) mod 4 = z div 64" using c by simp
  show "(x div 4) mod 64 * 4 + (((x mod 4) * 16 + y div 16) mod 64) div 16 = x"
    using a s2 d2 by simp
  show "(((x mod 4) * 16 + y div 16) mod 64) mod 16 * 16 + (((y mod 16) * 4 + z div 64) mod 64) div 4 = y"
    using s2 s3 m2 d3 by simp
  show "(((y mod 16) * 4 + z div 64) mod 64) mod 4 * 64 + (z mod 64) mod 64 = z"
    using s3 m3 by simp
qed

lemma unat_byte_less: "unat (a :: byte) < 256"
  using unsigned_less [of a] by simp

lemma decode_group:
  fixes a b c :: byte
  shows "(of_nat ((unat a div 4) mod 64 * 4 + (((unat a mod 4) * 16 + unat b div 16) mod 64) div 16) :: byte) = a"
    and "(of_nat ((((unat a mod 4) * 16 + unat b div 16) mod 64) mod 16 * 16 + (((unat b mod 16) * 4 + unat c div 64) mod 64) div 4) :: byte) = b"
    and "(of_nat ((((unat b mod 16) * 4 + unat c div 64) mod 64) mod 4 * 64 + (unat c mod 64) mod 64) :: byte) = c"
  by (simp_all only: sextets [OF unat_byte_less unat_byte_less unat_byte_less] of_nat_unat ucast_id)

lemma decode_group1:
  fixes a :: byte
  shows "(of_nat ((unat a div 4) mod 64 * 4 + (((unat a mod 4) * 16) mod 64) div 16) :: byte) = a"
  using decode_group(1) [of a 0] by simp

lemma decode_group2:
  fixes a b :: byte
  shows "(of_nat ((((unat a mod 4) * 16 + unat b div 16) mod 64) mod 16 * 16 + (((unat b mod 16) * 4) mod 64) div 4) :: byte) = b"
  using decode_group(2) [of a b 0] by simp

lemma base64_decode_encode: "base64_decode (base64_encode b) = b"
proof (induction b rule: base64_encode.induct)
  case 1
  show ?case by simp
next
  case (2 a)
  show ?case
    by (simp only: base64_encode.simps base64_decode.simps Let_def base64_index_char
          base64_char_not_pad decode_group1 if_True if_False refl)
next
  case (3 a b)
  show ?case
    by (simp only: base64_encode.simps base64_decode.simps Let_def base64_index_char
          base64_char_not_pad decode_group decode_group2 if_True if_False refl)
next
  case (4 a b c rest)
  then show ?case
    by (simp only: base64_encode.simps base64_decode.simps Let_def base64_index_char
          base64_char_not_pad decode_group if_True if_False refl append.simps)
qed

section \<open>The executable runtime meets the contracts\<close>

lemmas constants =
  IV_LENGTH_IN_BYTES_def SALT_LENGTH_IN_BYTES_def KEY_LENGTH_IN_BYTES_def
  KEY_ITERATIONS_def KEY_DIGEST_def CIPHER_ALGORITHM_def

lemmas io_defs = bind_def ret_def throw_def lift_def emit_def randomBytes_def

lemmas op_defs = Crypto_encrypt_def Crypto_decrypt_def Crypto_encryptSync_def Crypto_decryptSync_def
lemmas step_defs = generateSalt_def generateIV_def generateKey_def generateKeySync_def serialize_def
  encrypt_def decrypt_def createCipheriv_def createDecipheriv_def setAAD_def setAuthTag_def
  cipher_update_def cipher_final_def getAuthTag_def decipher_update_def decipher_final_def
  new_cipher_def asBuffer_def

lemma test_kdf_agrees: "kdf_agrees test_platform"
  by (simp add: kdf_agrees_def test_platform_def)

lemma test_kdf_length: "kdf_length test_platform"
  by (simp add: kdf_length_def test_platform_def test_kdf_def)

lemma test_gcm_accepts: "gcm_accepts test_platform"
  by (auto simp add: gcm_accepts_def test_platform_def CIPHER_ALGORITHM_def)

lemma test_stream_inverse: "test_stream k iv (test_stream k iv x) = x"
  by (simp add: test_stream_def comp_def xor.assoc map_idI)

lemma test_gcm_inverse: "gcm_inverse test_platform"
  by (simp add: gcm_inverse_def test_platform_def test_stream_inverse)

lemma test_gcm_tag_length: "gcm_tag_length test_platform"
  by (simp add: gcm_tag_length_def test_platform_def test_mac_def)


lemma test_gcm_no_padding: "gcm_no_padding test_platform"
  by (simp add: gcm_no_padding_def test_platform_def test_stream_def)

lemma test_base64_inverse: "base64_inverse test_platform"
  by (simp add: base64_inverse_def test_platform_def base64_decode_encode)

lemma test_empty_text_invalid: "empty_text_invalid test_platform"
  by (simp add: empty_text_invalid_def test_platform_def test_utf8_string_def test_parse_def)

section \<open>Validation of the AAD\<close>

lemma validateAAD_cases:
  "validateAAD aad =
     (if eq_null aad then Inr ()
      else if aad = JSString [] then Inl (ValidationError ''AAD cannot be an empty string'')
      else if (\<exists>s. aad = JSString s) then Inr ()
      else Inl (ValidationError ''AAD must be a string''))"
  by (cases aad) simp_all

lemma invalid_aad_stops:
  assumes "validateAAD aad = Inl e"
  shows "Crypto_encrypt P k input aad w = (Inl e, w)"
    and "Crypto_decrypt P k env aad w = (Inl e, w)"
    and "Crypto_encryptSync P k input aad w = (Inl e, w)"
    and "Crypto_decryptSync P k env aad w = (Inl e, w)"
  using assms
  by (simp_all add: Crypto_encrypt_def Crypto_decrypt_def Crypto_encryptSync_def
        Crypto_decryptSync_def bind_def lift_def del: validateAAD.simps)

text \<open>
  C7. In each of the four operations the check of the AAD comes first. An absent or
  \<open>null\<close> AAD passes and reaches the cipher as no AAD at all, \<open>null\<close> behaving as an
  absent AAD does. Any other value that is not a string fails with ``AAD must be a
  string'', and the empty string fails with ``AAD cannot be an empty string'': whatever
  the other argument is, the operation returns that error and leaves the world as it
  was, with no random byte drawn and no call of the key derivation or of the cipher.
\<close>

theorem aad_validation_first:
  "(eq_null aad \<longrightarrow> validateAAD aad = Inr () \<and> aad_of aad = None
        \<and> Crypto_encrypt P k input aad = Crypto_encrypt P k input JSUndefined
        \<and> Crypto_decrypt P k env aad = Crypto_decrypt P k env JSUndefined
        \<and> Crypto_encryptSync P k input aad = Crypto_encryptSync P k input JSUndefined
        \<and> Crypto_decryptSync P k env aad = Crypto_decryptSync P k env JSUndefined)
   \<and> (\<not> eq_null aad \<and> (\<forall>s. aad \<noteq> JSString s) \<longrightarrow>
        Crypto_encrypt P k input aad w = (Inl (ValidationError ''AAD must be a string''), w)
      \<and> Crypto_decrypt P k env aad w = (Inl (ValidationError ''AAD must be a string''), w)
      \<and> Crypto_encryptSync P k input aad w = (Inl (ValidationError ''AAD must be a string''), w)
      \<and> Crypto_decryptSync P k env aad w = (Inl (ValidationError ''AAD must be a string''), w))
   \<and> Crypto_encrypt P k input (JSString []) w
        = (Inl (ValidationError ''AAD cannot be an empty string''), w)
   \<and> Crypto_decrypt P k env (JSString []) w
        = (Inl (ValidationError ''AAD cannot be an empty string''), w)
   \<and> Crypto_encryptSync P k input (JSString []) w
        = (Inl (ValidationError ''AAD cannot be an empty string''), w)
   \<and> Crypto_decryptSync P k env (JSString []) w
        = (Inl (ValidationError ''AAD cannot be an empty string''), w)"
proof -
  have absent: "eq_null aad \<longrightarrow> validateAAD aad = Inr () \<and> aad_of aad = None
        \<and> Crypto_encrypt P k input aad = Crypto_encrypt P k input JSUndefined
        \<and> Crypto_decrypt P k env aad = Crypto_decrypt P k env JSUndefined
        \<and> Crypto_encryptSync P k input aad = Crypto_encryptSync P k input JSUndefined
        \<and> Crypto_decryptSync P k env aad = Crypto_decryptSync P k env JSUndefined"
    by (cases aad) (simp_all add: op_defs)
  have empty: "validateAAD (JSString []) = Inl (ValidationError ''AAD cannot be an empty string'')"
    by simp
  have other: "\<not> eq_null aad \<and> (\<forall>s. aad \<noteq> JSString s) \<longrightarrow>
        Crypto_encrypt P k input aad w = (Inl (ValidationError ''AAD must be a string''), w)
      \<and> Crypto_decrypt P k env aad w = (Inl (ValidationError ''AAD must be a string''), w)
      \<and> Crypto_encryptSync P k input aad w = (Inl (ValidationError ''AAD must be a string''), w)
      \<and> Crypto_decryptSync P k env aad w = (Inl (ValidationError ''AAD must be a string''), w)"
  proof
    assume "\<not> eq_null aad \<and> (\<forall>s. aad \<noteq> JSString s)"
    then have "validateAAD aad = Inl (ValidationError ''AAD must be a string'')"
      by (simp add: validateAAD_cases del: validateAAD.simps)
    then show "Crypto_encrypt P k input aad w = (Inl (ValidationError ''AAD must be a string''), w)
      \<and> Crypto_decrypt P k env aad w = (Inl (ValidationError ''AAD must be a string''), w)
      \<and> Crypto_encryptSync P k input aad w = (Inl (ValidationError ''AAD must be a string''), w)
      \<and> Crypto_decryptSync P k env aad w = (Inl (ValidationError ''AAD must be a string''), w)"
      by (simp only: invalid_aad_stops simp_thms)
  qed
  show ?thesis
    using absent other invalid_aad_stops [OF empty] by (simp only: simp_thms)
qed

theorem aad_validation_first_witness:
  "validateAAD JSNull = Inr () \<and> aad_of JSNull = None
   \<and> validateAAD JSUndefined = Inr () \<and> aad_of JSUndefined = None
   \<and> Crypto_encrypt test_platform (Str ''pw'') (JSString ''hi'') JSNull
       = Crypto_encrypt test_platform (Str ''pw'') (JSString ''hi'') JSUndefined
   \<and> Crypto_encrypt test_platform (Str ''pw'') JSFunction (JSNumber 123) world0
       = (Inl (ValidationError ''AAD must be a string''), world0)
   \<and> Crypto_decryptSync test_platform (Str ''pw'') (Str ''!'') (JSBoolean True) world0
       = (Inl (ValidationError ''AAD must be a string''), world0)"
  using aad_validation_first [where aad = JSNull and P = test_platform and k = "Str ''pw''"
      and input = "JSString ''hi''"]
    aad_validation_first [where aad = JSUndefined]
    aad_validation_first [where aad = "JSNumber 123" and P = test_platform and k = "Str ''pw''"
      and input = JSFunction and w = world0]
    aad_validation_first [where aad = "JSBoolean True" and P = test_platform and k = "Str ''pw''"
      and env = "Str ''!''" and w = world0]
  by simp

section \<open>Construction of the codec\<close>

text \<open>
  C8, as the code has it. Construction fails with ``encryptionKey is required'' when the
  passphrase is missing or is the empty string. Every other passphrase is accepted, an
  empty byte sequence included (the check is JavaScript truthiness, and a \<open>Buffer\<close> is
  an object), and the codec returned has the four operations, closed over the
  passphrase.
\<close>

theorem construction_validation:
  "(encryptionKey opts = None \<or> encryptionKey opts = Some (Str []) \<longrightarrow>
      makeCryptoWith P opts = Inl (ConfigurationError ''encryptionKey is required''))
   \<and> (\<forall>k. encryptionKey opts = Some k \<and> k \<noteq> Str [] \<longrightarrow>
      makeCryptoWith P opts =
        Inr \<lparr>encrypt_op = Crypto_encrypt P k, decrypt_op = Crypto_decrypt P k,
             encryptSync_op = Crypto_encryptSync P k, decryptSync_op = Crypto_decryptSync P k\<rparr>)"
proof (intro conjI impI allI)
  assume "encryptionKey opts = None \<or> encryptionKey opts = Some (Str [])"
  then show "makeCryptoWith P opts = Inl (ConfigurationError ''encryptionKey is required'')"
    by (auto simp add: makeCryptoWith_def validateOpts_def)
next
  fix k assume "encryptionKey opts = Some k \<and> k \<noteq> Str []"
  then show "makeCryptoWith P opts =
        Inr \<lparr>encrypt_op = Crypto_encrypt P k, decrypt_op = Crypto_decrypt P k,
             encryptSync_op = Crypto_encryptSync P k, decryptSync_op = Crypto_decryptSync P k\<rparr>"
    by (cases k) (simp_all add: makeCryptoWith_def validateOpts_def)
qed

text \<open>
  C8, as stated, asks that an empty byte-sequence passphrase be refused as well. It is
  not: with an empty \<open>Buffer\<close> the construction succeeds.
\<close>

theorem empty_buffer_passphrase_accepted:
  "\<not> isl (makeCryptoWith test_platform \<lparr>encryptionKey = Some (Buf [])\<rparr>)"
  by (simp add: makeCryptoWith_def validateOpts_def)

theorem construction_validation_witness:
  "makeCryptoWith test_platform \<lparr>encryptionKey = None\<rparr>
     = Inl (ConfigurationError ''encryptionKey is required'')
   \<and> makeCryptoWith test_platform \<lparr>encryptionKey = Some (Str [])\<rparr>
     = Inl (ConfigurationError ''encryptionKey is required'')
   \<and> makeCryptoWith test_platform \<lparr>encryptionKey = Some (Str ''correct horse battery staple'')\<rparr>
     = Inr \<lparr>encrypt_op = Crypto_encrypt test_platform (Str ''correct horse battery staple''),
            decrypt_op = Crypto_decrypt test_platform (Str ''correct horse battery staple''),
            encryptSync_op = Crypto_encryptSync test_platform (Str ''correct horse battery staple''),
            decryptSync_op = Crypto_decryptSync test_platform (Str ''correct horse battery staple'')\<rparr>
   \<and> makeCryptoWith test_platform \<lparr>encryptionKey = Some (Buf [])\<rparr>
     = Inr \<lparr>encrypt_op = Crypto_encrypt test_platform (Buf []),
            decrypt_op = Crypto_decrypt test_platform (Buf []),
            encryptSync_op = Crypto_encryptSync test_platform (Buf []),
            decryptSync_op = Crypto_decryptSync test_platform (Buf [])\<rparr>"
  using construction_validation [of "\<lparr>encryptionKey = None\<rparr>" test_platform]
    construction_validation [of "\<lparr>encryptionKey = Some (Str [])\<rparr>" test_platform]
    construction_validation [of "\<lparr>encryptionKey = Some (Str ''correct horse battery staple'')\<rparr>" test_platform]
    construction_validation [of "\<lparr>encryptionKey = Some (Buf [])\<rparr>" test_platform]
  by simp

section \<open>What each operation returns\<close>

text \<open>
  The outcome of the module-level \<open>decrypt\<close> and of the two public forms, as a function
  of the answers of the runtime. None of them draws a random byte.
\<close>

lemma decrypt_result:
  "fst (decrypt P key b aad w) =
     (let iv = buf_slice b 64 76; tag = buf_slice b 76 92; text = buf_slice_from b 92
      in if \<not> cipher_accepts P CIPHER_ALGORITHM key iv
           then Inl (PrimitiveError ''Invalid key length or IV'')
         else if \<not> tag_accepts P CIPHER_ALGORITHM tag
           then Inl (PrimitiveError ''Invalid authentication tag length'')
         else if \<not> decipher_verifies P CIPHER_ALGORITHM key iv (map_option (utf8_bytes P) aad) text tag
           then Inl AuthenticationError
         else case json_parse P (utf8_string P (decipher_output P CIPHER_ALGORITHM key iv text)) of
                None \<Rightarrow> Inl SyntaxError
              | Some v \<Rightarrow> Inr v)"
  by (cases aad) (simp_all add: step_defs io_defs constants Let_def split: option.splits)

lemma decrypt_drawn: "drawn (snd (decrypt P key b aad w)) = drawn w"
  by (cases aad) (simp_all add: step_defs io_defs constants Let_def split: option.splits)

lemma Crypto_decrypt_result:
  "fst (Crypto_decrypt P k env aad w) =
     (case validateAAD aad of
        Inl e \<Rightarrow> Inl e
      | Inr _ \<Rightarrow>
         (case pbkdf2 P k (buf_slice (asBuffer P env) 0 64) KEY_ITERATIONS KEY_LENGTH_IN_BYTES KEY_DIGEST of
            Inl err \<Rightarrow> Inl (PrimitiveError err)
          | Inr key \<Rightarrow> fst (decrypt P key (asBuffer P env) (aad_of aad) w)))"
  by (simp add: Crypto_decrypt_def generateKey_def io_defs decrypt_result SALT_LENGTH_IN_BYTES_def Let_def
        split: sum.splits del: validateAAD.simps)

lemma Crypto_decryptSync_result:
  "fst (Crypto_decryptSync P k env aad w) =
     (case validateAAD aad of
        Inl e \<Rightarrow> Inl e
      | Inr _ \<Rightarrow>
          fst (decrypt P (pbkdf2Sync P k (buf_slice (asBuffer P env) 0 64) KEY_ITERATIONS KEY_LENGTH_IN_BYTES KEY_DIGEST)
                 (asBuffer P env) (aad_of aad) w))"
  by (simp add: Crypto_decryptSync_def generateKeySync_def io_defs decrypt_result SALT_LENGTH_IN_BYTES_def Let_def
        split: sum.splits del: validateAAD.simps)

lemma Crypto_decrypt_drawn: "drawn (snd (Crypto_decrypt P k env aad w)) = drawn w"
  by (simp add: Crypto_decrypt_def generateKey_def io_defs decrypt_drawn Let_def
        split: sum.splits prod.splits del: validateAAD.simps)

lemma Crypto_decryptSync_drawn: "drawn (snd (Crypto_decryptSync P k env aad w)) = drawn w"
  by (simp add: Crypto_decryptSync_def generateKeySync_def io_defs decrypt_drawn Let_def
        split: sum.splits prod.splits del: validateAAD.simps)

section \<open>Serialization failure\<close>

text \<open>
  C3. When the value has no JSON text and the AAD is valid, both forms of \<open>encrypt\<close>
  fail with the serialization error and neither derives a key nor creates a cipher. The
  blocking form leaves the world untouched. The non-blocking form has already drawn the
  64 bytes of the salt: its call of \<open>_generateSalt\<close> stands before \<open>_serialize\<close>.
\<close>

theorem serialization_failure_effects:
  assumes "json_stringify P input = None" and "validateAAD aad = Inr ()"
  shows "Crypto_encryptSync P k input aad w
           = (Inl (SerializationError ''Object to be encrypted must be serializable''), w)
       \<and> Crypto_encrypt P k input aad w
           = (Inl (SerializationError ''Object to be encrypted must be serializable''),
              w\<lparr>drawn := drawn w + 64, trace := trace w @ [RandomBytes 64]\<rparr>)"
  using assms
  by (simp add: op_defs generateSalt_def serialize_def io_defs constants del: validateAAD.simps)

theorem serialization_failure_effects_witness:
  "json_stringify test_platform JSFunction = None \<and> validateAAD JSUndefined = Inr ()
   \<and> Crypto_encryptSync test_platform (Str ''pw'') JSFunction JSUndefined world0
        = (Inl (SerializationError ''Object to be encrypted must be serializable''), world0)
   \<and> Crypto_encrypt test_platform (Str ''pw'') JSFunction JSUndefined world0
        = (Inl (SerializationError ''Object to be encrypted must be serializable''),
           \<lparr>drawn = 64, trace = [RandomBytes 64]\<rparr>)"
proof -
  have h1: "json_stringify test_platform JSFunction = None" by (simp add: test_platform_def)
  have h2: "validateAAD JSUndefined = Inr ()" by simp
  show ?thesis
    using h1 h2 serialization_failure_effects [OF h1 h2, of "Str ''pw''" world0]
    by (simp add: world0_def)
qed

section \<open>Decryption is a function of its arguments\<close>

lemma decrypt_source_free:
  "fst (decrypt (P\<lparr>random_source := r\<rparr>) key b a w) = fst (decrypt P key b a w')"
  by (simp add: decrypt_result Let_def split: option.splits)

lemma asBuffer_source_free: "asBuffer (P\<lparr>random_source := r\<rparr>) env = asBuffer P env"
  by (cases env) (simp_all add: asBuffer_def)

text \<open>
  C9. Two runs of \<open>decryptSync\<close>, or of \<open>decrypt\<close>, on the same envelope, AAD and
  passphrase have the same outcome, the same value or the same error, whatever the
  random source holds and whatever state the world is in; and a run draws no random
  byte.
\<close>

theorem decrypt_deterministic:
  "fst (Crypto_decryptSync (P\<lparr>random_source := r1\<rparr>) k env aad w1)
     = fst (Crypto_decryptSync (P\<lparr>random_source := r2\<rparr>) k env aad w2)
   \<and> fst (Crypto_decrypt (P\<lparr>random_source := r1\<rparr>) k env aad w1)
     = fst (Crypto_decrypt (P\<lparr>random_source := r2\<rparr>) k env aad w2)
   \<and> drawn (snd (Crypto_decryptSync P k env aad w1)) = drawn w1
   \<and> drawn (snd (Crypto_decrypt P k env aad w1)) = drawn w1"
  by (simp add: Crypto_decrypt_result Crypto_decryptSync_result decrypt_source_free [where w' = w1]
        Crypto_decrypt_drawn Crypto_decryptSync_drawn asBuffer_source_free
        split: sum.splits del: validateAAD.simps)

section \<open>Slices and what \<open>encrypt\<close> returns\<close>

lemma slice_short: "length b \<le> n \<Longrightarrow> buf_slice_from b n = []"
  by (simp add: buf_slice_from_def buf_slice_def)

lemma buf_slice_take_drop: "buf_slice b i j = take (j - i) (drop i b)"
  by (auto simp add: buf_slice_def Let_def min_def)

lemma take_drop_nths: "take (j - i) (drop i b) = nths b {i..<j}"
proof (cases "i \<le> j")
  case True
  have "take (j - i) (drop i b) = nths (drop i b) {..<j - i}" by simp
  also have "\<dots> = nths b ((+) i ` {..<j - i})" by (rule nths_drop)
  also have "(+) i ` {..<j - i} = {i..<j}"
    using True by (simp add: lessThan_atLeast0 add.commute)
  finally show ?thesis .
next
  case False
  then show ?thesis by simp
qed

lemma buf_slice_nths: "buf_slice b i j = nths b {i..<j}"
  by (simp only: buf_slice_take_drop take_drop_nths)

lemma buf_slice_from_nths: "buf_slice_from b i = nths b {i..<length b}"
  by (simp only: buf_slice_from_def buf_slice_nths)

lemma encrypt_result:
  "fst (encrypt P s iv key salt aad w) =
     (if cipher_accepts P CIPHER_ALGORITHM key iv
      then Inr (base64_encode (spec_envelope P key salt iv aad s))
      else Inl (PrimitiveError ''Invalid key length or IV''))"
  by (cases aad) (simp_all add: step_defs io_defs spec_envelope_def Let_def)

lemma Crypto_encrypt_result:
  "fst (Crypto_encrypt P k input aad w) =
     (case validateAAD aad of
        Inl e \<Rightarrow> Inl e
      | Inr _ \<Rightarrow>
         (case json_stringify P input of
            None \<Rightarrow> Inl (SerializationError ''Object to be encrypted must be serializable'')
          | Some s \<Rightarrow>
             (case pbkdf2 P k (drawn_bytes P w 0 64) KEY_ITERATIONS KEY_LENGTH_IN_BYTES KEY_DIGEST of
                Inl err \<Rightarrow> Inl (PrimitiveError err)
              | Inr key \<Rightarrow>
                  fst (encrypt P s (drawn_bytes P w 64 12) key (drawn_bytes P w 0 64) (aad_of aad) w))))"
  by (simp add: Crypto_encrypt_def generateSalt_def generateIV_def generateKey_def serialize_def
        io_defs encrypt_result drawn_bytes_def constants Let_def
        split: sum.splits option.splits del: validateAAD.simps)

lemma Crypto_encryptSync_result:
  "fst (Crypto_encryptSync P k input aad w) =
     (case validateAAD aad of
        Inl e \<Rightarrow> Inl e
      | Inr _ \<Rightarrow>
         (case json_stringify P input of
            None \<Rightarrow> Inl (SerializationError ''Object to be encrypted must be serializable'')
          | Some s \<Rightarrow>
              fst (encrypt P s (drawn_bytes P w 0 12)
                     (pbkdf2Sync P k (drawn_bytes P w 12 64) KEY_ITERATIONS KEY_LENGTH_IN_BYTES KEY_DIGEST)
                     (drawn_bytes P w 12 64) (aad_of aad) w)))"
  by (simp add: Crypto_encryptSync_def generateSalt_def generateIV_def generateKeySync_def serialize_def
        io_defs encrypt_result drawn_bytes_def constants Let_def
        split: sum.splits option.splits del: validateAAD.simps)

section \<open>The two forms of \<open>encrypt\<close> agree\<close>

lemma encrypt_source_free:
  "fst (encrypt (P\<lparr>random_source := r\<rparr>) s iv key salt aad w) = fst (encrypt P s iv key salt aad w')"
  by (simp add: encrypt_result spec_envelope_def)

text \<open>
  C4. When the two forms of PBKDF2 derive the same key, and the non-blocking
  \<open>encrypt\<close> draws the same salt and the same nonce as \<open>encryptSync\<close> (the first
  draws the salt first, the second the nonce first), both return the same outcome for
  the same passphrase, value and AAD: the same envelope, byte for byte, or the same
  error.
\<close>

theorem sync_async_same_envelope:
  assumes "kdf_agrees P"
    and "drawn_bytes (P\<lparr>random_source := ra\<rparr>) wa 0 64 = drawn_bytes (P\<lparr>random_source := rs\<rparr>) ws 12 64"
    and "drawn_bytes (P\<lparr>random_source := ra\<rparr>) wa 64 12 = drawn_bytes (P\<lparr>random_source := rs\<rparr>) ws 0 12"
  shows "fst (Crypto_encrypt (P\<lparr>random_source := ra\<rparr>) k input aad wa)
       = fst (Crypto_encryptSync (P\<lparr>random_source := rs\<rparr>) k input aad ws)"
proof -
  have kdf: "pbkdf2 P k s i n d = Inr (pbkdf2Sync P k s i n d)" for s i n d
    using assms(1) by (simp add: kdf_agrees_def)
  show ?thesis
    by (simp add: Crypto_encrypt_result Crypto_encryptSync_result assms(2,3) kdf
          encrypt_source_free [where w' = wa]
          split: sum.splits option.splits del: validateAAD.simps)
qed

theorem sync_async_same_envelope_witness:
  "kdf_agrees test_platform
   \<and> drawn_bytes (test_platform\<lparr>random_source := (\<lambda>i. if i < 64 then 1 else 2)\<rparr>) world0 0 64
       = drawn_bytes (test_platform\<lparr>random_source := (\<lambda>i. if i < 12 then 2 else 1)\<rparr>) world0 12 64
   \<and> drawn_bytes (test_platform\<lparr>random_source := (\<lambda>i. if i < 64 then 1 else 2)\<rparr>) world0 64 12
       = drawn_bytes (test_platform\<lparr>random_source := (\<lambda>i. if i < 12 then 2 else 1)\<rparr>) world0 0 12
   \<and> fst (Crypto_encrypt (test_platform\<lparr>random_source := (\<lambda>i. if i < 64 then 1 else 2)\<rparr>)
            (Str ''pw'') (JSString ''hi'') (JSString ''ctx1'') world0)
     = fst (Crypto_encryptSync (test_platform\<lparr>random_source := (\<lambda>i. if i < 12 then 2 else 1)\<rparr>)
            (Str ''pw'') (JSString ''hi'') (JSString ''ctx1'') world0)"
proof -
  have salt: "drawn_bytes (test_platform\<lparr>random_source := (\<lambda>i. if i < 64 then 1 else 2)\<rparr>) world0 0 64
       = drawn_bytes (test_platform\<lparr>random_source := (\<lambda>i. if i < 12 then 2 else 1)\<rparr>) world0 12 64"
    by code_simp
  have iv: "drawn_bytes (test_platform\<lparr>random_source := (\<lambda>i. if i < 64 then 1 else 2)\<rparr>) world0 64 12
       = drawn_bytes (test_platform\<lparr>random_source := (\<lambda>i. if i < 12 then 2 else 1)\<rparr>) world0 0 12"
    by code_simp
  show ?thesis
    using test_kdf_agrees salt iv
      sync_async_same_envelope [OF test_kdf_agrees salt iv, of "Str ''pw''" "JSString ''hi''" "JSString ''ctx1''"]
    by simp
qed

section \<open>The layout of the envelope\<close>

lemma length_drawn_bytes: "length (drawn_bytes P w i n) = n"
  by (simp add: drawn_bytes_def)

lemma spec_fields:
  assumes "length salt = 64" and "length nonce = 12" and "length tag = 16"
  shows "spec_salt (salt @ nonce @ tag @ ct) = salt"
    and "spec_nonce (salt @ nonce @ tag @ ct) = nonce"
    and "spec_tag (salt @ nonce @ tag @ ct) = tag"
    and "spec_ciphertext (salt @ nonce @ tag @ ct) = ct"
  using assms
  by (simp_all add: spec_salt_def spec_nonce_def spec_tag_def spec_ciphertext_def
        take_drop_nths [symmetric])

lemma tag_length:
  assumes "gcm_tag_length P"
  shows "length (cipher_tag P CIPHER_ALGORITHM key nonce a x) = 16"
    and "length t = 16 \<Longrightarrow> tag_accepts P CIPHER_ALGORITHM t"
  using assms by (simp_all add: gcm_tag_length_def)

lemma spec_envelope_fields:
  assumes "gcm_tag_length P" and "length salt = 64" and "length nonce = 12"
  shows "spec_salt (spec_envelope P key salt nonce a s) = salt"
    and "spec_nonce (spec_envelope P key salt nonce a s) = nonce"
    and "spec_tag (spec_envelope P key salt nonce a s)
           = cipher_tag P CIPHER_ALGORITHM key nonce (map_option (utf8_bytes P) a) (utf8_bytes P s)"
    and "spec_ciphertext (spec_envelope P key salt nonce a s)
           = cipher_output P CIPHER_ALGORITHM key nonce (utf8_bytes P s)"
  unfolding spec_envelope_def
  by (rule spec_fields [OF assms(2,3) tag_length(1) [OF assms(1)]])+

lemma decrypt_opens:
  "fst (decrypt P key b a w) = Inr v \<longleftrightarrow>
     cipher_accepts P CIPHER_ALGORITHM key (spec_nonce b)
   \<and> tag_accepts P CIPHER_ALGORITHM (spec_tag b)
   \<and> decipher_verifies P CIPHER_ALGORITHM key (spec_nonce b) (map_option (utf8_bytes P) a)
        (spec_ciphertext b) (spec_tag b)
   \<and> json_parse P (utf8_string P (decipher_output P CIPHER_ALGORITHM key (spec_nonce b)
        (spec_ciphertext b))) = Some v"
  by (simp add: decrypt_result buf_slice_nths buf_slice_from_nths spec_nonce_def spec_tag_def
        spec_ciphertext_def Let_def split: option.splits)

lemma Crypto_decrypt_opens:
  "fst (Crypto_decrypt P k e aad w) = Inr v \<longleftrightarrow>
     validateAAD aad = Inr ()
   \<and> (\<exists>key. pbkdf2 P k (spec_salt (asBuffer P e)) KEY_ITERATIONS KEY_LENGTH_IN_BYTES KEY_DIGEST = Inr key
          \<and> fst (decrypt P key (asBuffer P e) (aad_of aad) w) = Inr v)"
  by (simp add: Crypto_decrypt_result buf_slice_nths spec_salt_def
        split: sum.splits del: validateAAD.simps)

lemma Crypto_decryptSync_opens:
  "fst (Crypto_decryptSync P k e aad w) = Inr v \<longleftrightarrow>
     validateAAD aad = Inr ()
   \<and> fst (decrypt P (pbkdf2Sync P k (spec_salt (asBuffer P e)) KEY_ITERATIONS KEY_LENGTH_IN_BYTES KEY_DIGEST)
           (asBuffer P e) (aad_of aad) w) = Inr v"
  by (simp add: Crypto_decryptSync_result buf_slice_nths spec_salt_def
        split: sum.splits del: validateAAD.simps)

lemma Crypto_encrypt_seals:
  "fst (Crypto_encrypt P k input aad w) = Inr env \<longleftrightarrow>
     validateAAD aad = Inr ()
   \<and> (\<exists>s key. json_stringify P input = Some s
        \<and> pbkdf2 P k (drawn_bytes P w 0 64) KEY_ITERATIONS KEY_LENGTH_IN_BYTES KEY_DIGEST = Inr key
        \<and> cipher_accepts P CIPHER_ALGORITHM key (drawn_bytes P w 64 12)
        \<and> env = base64_encode (spec_envelope P key (drawn_bytes P w 0 64) (drawn_bytes P w 64 12)
                   (aad_of aad) s))"
  by (auto simp add: Crypto_encrypt_result encrypt_result
        split: sum.splits option.splits simp del: validateAAD.simps)

lemma Crypto_encryptSync_seals:
  "fst (Crypto_encryptSync P k input aad w) = Inr env \<longleftrightarrow>
     validateAAD aad = Inr ()
   \<and> (\<exists>s. json_stringify P input = Some s
        \<and> cipher_accepts P CIPHER_ALGORITHM
             (pbkdf2Sync P k (drawn_bytes P w 12 64) KEY_ITERATIONS KEY_LENGTH_IN_BYTES KEY_DIGEST)
             (drawn_bytes P w 0 12)
        \<and> env = base64_encode (spec_envelope P
                   (pbkdf2Sync P k (drawn_bytes P w 12 64) KEY_ITERATIONS KEY_LENGTH_IN_BYTES KEY_DIGEST)
                   (drawn_bytes P w 12 64) (drawn_bytes P w 0 12) (aad_of aad) s))"
  by (auto simp add: Crypto_encryptSync_result encrypt_result
        split: sum.splits option.splits simp del: validateAAD.simps)

lemma seal_then_open:
  assumes tag: "gcm_tag_length P" and inv: "gcm_inverse P" and b64: "base64_inverse P"
    and ser: "json_stringify P v = Some s" "utf8_string P (utf8_bytes P s) = s" "json_parse P s = Some v"
    and len: "length salt = 64" "length nonce = 12"
    and acc: "cipher_accepts P CIPHER_ALGORITHM key nonce"
  shows "asBuffer P (Str (base64_encode (spec_envelope P key salt nonce a s)))
           = spec_envelope P key salt nonce a s"
    and "fst (decrypt P key (spec_envelope P key salt nonce a s) a w) = Inr v"
proof -
  show "asBuffer P (Str (base64_encode (spec_envelope P key salt nonce a s)))
           = spec_envelope P key salt nonce a s"
    using b64 by (simp add: asBuffer_def base64_inverse_def)
  have out: "decipher_output P CIPHER_ALGORITHM key nonce
               (cipher_output P CIPHER_ALGORITHM key nonce (utf8_bytes P s)) = utf8_bytes P s"
    using inv unfolding gcm_inverse_def by blast
  have ver: "decipher_verifies P CIPHER_ALGORITHM key nonce (map_option (utf8_bytes P) a)
               (cipher_output P CIPHER_ALGORITHM key nonce (utf8_bytes P s))
               (cipher_tag P CIPHER_ALGORITHM key nonce (map_option (utf8_bytes P) a) (utf8_bytes P s))"
    using inv unfolding gcm_inverse_def by blast
  show "fst (decrypt P key (spec_envelope P key salt nonce a s) a w) = Inr v"
    by (simp add: decrypt_opens spec_envelope_fields [OF tag len] acc tag_length [OF tag] out ver ser)
qed


lemma derived_key_accepted:
  assumes "kdf_length P" and "gcm_accepts P" and "length nonce = 12"
  shows "cipher_accepts P CIPHER_ALGORITHM
           (pbkdf2Sync P k salt KEY_ITERATIONS KEY_LENGTH_IN_BYTES KEY_DIGEST) nonce"
proof -
  have "length (pbkdf2Sync P k salt KEY_ITERATIONS KEY_LENGTH_IN_BYTES KEY_DIGEST) = 32"
    using assms(1) by (simp add: kdf_length_def KEY_LENGTH_IN_BYTES_def)
  then show ?thesis
    using assms(2,3) unfolding gcm_accepts_def by blast
qed

lemma codec_of:
  assumes "makeCryptoWith P opts = Inr c"
  shows "\<exists>k. c = \<lparr>encrypt_op = Crypto_encrypt P k, decrypt_op = Crypto_decrypt P k,
                  encryptSync_op = Crypto_encryptSync P k,
                  decryptSync_op = Crypto_decryptSync P k\<rparr>"
  using assms
  by (auto simp add: makeCryptoWith_def split: sum.splits option.splits)

lemma Crypto_encrypt_succeeds:
  assumes "kdf_agrees P" and "kdf_length P" and "gcm_accepts P"
    and "json_stringify P v = Some s" and "validateAAD aad = Inr ()"
  shows "fst (Crypto_encrypt P k v aad w) =
           Inr (base64_encode (spec_envelope P
                  (pbkdf2Sync P k (drawn_bytes P w 0 64) KEY_ITERATIONS KEY_LENGTH_IN_BYTES KEY_DIGEST)
                  (drawn_bytes P w 0 64) (drawn_bytes P w 64 12) (aad_of aad) s))"
    and "fst (Crypto_encryptSync P k v aad w) =
           Inr (base64_encode (spec_envelope P
                  (pbkdf2Sync P k (drawn_bytes P w 12 64) KEY_ITERATIONS KEY_LENGTH_IN_BYTES KEY_DIGEST)
                  (drawn_bytes P w 12 64) (drawn_bytes P w 0 12) (aad_of aad) s))"
proof -
  have async: "pbkdf2 P k x i n d = Inr (pbkdf2Sync P k x i n d)" for x i n d
    using assms(1) by (simp add: kdf_agrees_def)
  have acc: "cipher_accepts P CIPHER_ALGORITHM
               (pbkdf2Sync P k salt KEY_ITERATIONS KEY_LENGTH_IN_BYTES KEY_DIGEST)
               (drawn_bytes P w i 12)" for salt i
    by (rule derived_key_accepted [OF assms(2,3) length_drawn_bytes])
  show "fst (Crypto_encrypt P k v aad w) =
           Inr (base64_encode (spec_envelope P
                  (pbkdf2Sync P k (drawn_bytes P w 0 64) KEY_ITERATIONS KEY_LENGTH_IN_BYTES KEY_DIGEST)
                  (drawn_bytes P w 0 64) (drawn_bytes P w 64 12) (aad_of aad) s))"
    by (simp add: Crypto_encrypt_seals assms(4,5) async acc del: validateAAD.simps)
  show "fst (Crypto_encryptSync P k v aad w) =
           Inr (base64_encode (spec_envelope P
                  (pbkdf2Sync P k (drawn_bytes P w 12 64) KEY_ITERATIONS KEY_LENGTH_IN_BYTES KEY_DIGEST)
                  (drawn_bytes P w 12 64) (drawn_bytes P w 0 12) (aad_of aad) s))"
    by (simp add: Crypto_encryptSync_seals assms(4,5) acc del: validateAAD.simps)
qed

lemma test_stringify_hi:
  "json_stringify test_platform (JSString ''hi'') = Some [CHR 0x22, CHR ''h'', CHR ''i'', CHR 0x22]"
  by (simp add: test_platform_def)

text \<open>
  C5. Every envelope either form of \<open>encrypt\<close> returns is the base64 text of
  \<open>salt || nonce || tag || ciphertext\<close>: the salt is the 64 random bytes and the nonce
  the 12 random bytes the call drew, the tag (16 bytes) and the ciphertext are what the
  cipher gave for the derived key, the nonce, the AAD and the serialized value, so the
  four fields sit at the offsets \<open>[0,64)\<close>, \<open>[64,76)\<close>, \<open>[76,92)\<close> and \<open>[92,end)\<close>. And
  \<open>decrypt\<close> reads exactly those offsets: it returns a value precisely when the runtime
  takes the bytes \<open>[64,76)\<close> as IV and the bytes \<open>[76,92)\<close> as tag, verifies the bytes
  \<open>[92,end)\<close> against that tag, and the decrypted text parses; the public \<open>decrypt\<close>
  derives the key from the bytes \<open>[0,64)\<close>.
\<close>

theorem envelope_layout:
  assumes "gcm_tag_length P"
  shows
    "(fst (Crypto_encrypt P k input aad w) = Inr env \<longrightarrow>
        (\<exists>s key. json_stringify P input = Some s
           \<and> pbkdf2 P k (drawn_bytes P w 0 64) KEY_ITERATIONS KEY_LENGTH_IN_BYTES KEY_DIGEST = Inr key
           \<and> env = base64_encode (spec_envelope P key (drawn_bytes P w 0 64)
                      (drawn_bytes P w 64 12) (aad_of aad) s)))
   \<and> (fst (Crypto_encryptSync P k input aad w) = Inr env \<longrightarrow>
        (\<exists>s. json_stringify P input = Some s
           \<and> env = base64_encode (spec_envelope P
                      (pbkdf2Sync P k (drawn_bytes P w 12 64) KEY_ITERATIONS KEY_LENGTH_IN_BYTES KEY_DIGEST)
                      (drawn_bytes P w 12 64) (drawn_bytes P w 0 12) (aad_of aad) s)))
   \<and> length (drawn_bytes P w i 64) = 64 \<and> length (drawn_bytes P w j 12) = 12
   \<and> (length salt = 64 \<and> length nonce = 12 \<longrightarrow>
        spec_salt (spec_envelope P key salt nonce a s) = salt
      \<and> spec_nonce (spec_envelope P key salt nonce a s) = nonce
      \<and> spec_tag (spec_envelope P key salt nonce a s)
          = cipher_tag P CIPHER_ALGORITHM key nonce (map_option (utf8_bytes P) a) (utf8_bytes P s)
      \<and> length (spec_tag (spec_envelope P key salt nonce a s)) = 16
      \<and> spec_ciphertext (spec_envelope P key salt nonce a s)
          = cipher_output P CIPHER_ALGORITHM key nonce (utf8_bytes P s))
   \<and> (fst (decrypt P key b a w') = Inr v \<longleftrightarrow>
        cipher_accepts P CIPHER_ALGORITHM key (spec_nonce b)
      \<and> tag_accepts P CIPHER_ALGORITHM (spec_tag b)
      \<and> decipher_verifies P CIPHER_ALGORITHM key (spec_nonce b) (map_option (utf8_bytes P) a)
           (spec_ciphertext b) (spec_tag b)
      \<and> json_parse P (utf8_string P (decipher_output P CIPHER_ALGORITHM key (spec_nonce b)
           (spec_ciphertext b))) = Some v)
   \<and> (fst (Crypto_decrypt P k e aad w') = Inr v \<longleftrightarrow>
        validateAAD aad = Inr ()
      \<and> (\<exists>key. pbkdf2 P k (spec_salt (asBuffer P e)) KEY_ITERATIONS KEY_LENGTH_IN_BYTES KEY_DIGEST
                  = Inr key
             \<and> fst (decrypt P key (asBuffer P e) (aad_of aad) w') = Inr v))"
proof (intro conjI)
  show "fst (Crypto_encrypt P k input aad w) = Inr env \<longrightarrow>
        (\<exists>s key. json_stringify P input = Some s
           \<and> pbkdf2 P k (drawn_bytes P w 0 64) KEY_ITERATIONS KEY_LENGTH_IN_BYTES KEY_DIGEST = Inr key
           \<and> env = base64_encode (spec_envelope P key (drawn_bytes P w 0 64)
                      (drawn_bytes P w 64 12) (aad_of aad) s))"
    unfolding Crypto_encrypt_seals by blast
  show "fst (Crypto_encryptSync P k input aad w) = Inr env \<longrightarrow>
        (\<exists>s. json_stringify P input = Some s
           \<and> env = base64_encode (spec_envelope P
                      (pbkdf2Sync P k (drawn_bytes P w 12 64) KEY_ITERATIONS KEY_LENGTH_IN_BYTES KEY_DIGEST)
                      (drawn_bytes P w 12 64) (drawn_bytes P w 0 12) (aad_of aad) s))"
    unfolding Crypto_encryptSync_seals by blast
  show "length (drawn_bytes P w i 64) = 64" and "length (drawn_bytes P w j 12) = 12"
    by (rule length_drawn_bytes)+
  show "length salt = 64 \<and> length nonce = 12 \<longrightarrow>
        spec_salt (spec_envelope P key salt nonce a s) = salt
      \<and> spec_nonce (spec_envelope P key salt nonce a s) = nonce
      \<and> spec_tag (spec_envelope P key salt nonce a s)
          = cipher_tag P CIPHER_ALGORITHM key nonce (map_option (utf8_bytes P) a) (utf8_bytes P s)
      \<and> length (spec_tag (spec_envelope P key salt nonce a s)) = 16
      \<and> spec_ciphertext (spec_envelope P key salt nonce a s)
          = cipher_output P CIPHER_ALGORITHM key nonce (utf8_bytes P s)"
    by (simp add: spec_envelope_fields [OF assms] tag_length [OF assms])
  show "fst (decrypt P key b a w') = Inr v \<longleftrightarrow>
        cipher_accepts P CIPHER_ALGORITHM key (spec_nonce b)
      \<and> tag_accepts P CIPHER_ALGORITHM (spec_tag b)
      \<and> decipher_verifies P CIPHER_ALGORITHM key (spec_nonce b) (map_option (utf8_bytes P) a)
           (spec_ciphertext b) (spec_tag b)
      \<and> json_parse P (utf8_string P (decipher_output P CIPHER_ALGORITHM key (spec_nonce b)
           (spec_ciphertext b))) = Some v"
    by (rule decrypt_opens)
  show "fst (Crypto_decrypt P k e aad w') = Inr v \<longleftrightarrow>
        validateAAD aad = Inr ()
      \<and> (\<exists>key. pbkdf2 P k (spec_salt (asBuffer P e)) KEY_ITERATIONS KEY_LENGTH_IN_BYTES KEY_DIGEST
                  = Inr key
             \<and> fst (decrypt P key (asBuffer P e) (aad_of aad) w') = Inr v)"
    by (rule Crypto_decrypt_opens)
qed

theorem envelope_layout_witness:
  "gcm_tag_length test_platform
   \<and> fst (Crypto_encrypt test_platform (Str ''pw'') (JSString ''hi'') (JSString ''ctx1'') world0)
       = Inr (base64_encode (spec_envelope test_platform
           (pbkdf2Sync test_platform (Str ''pw'') (drawn_bytes test_platform world0 0 64)
              KEY_ITERATIONS KEY_LENGTH_IN_BYTES KEY_DIGEST)
           (drawn_bytes test_platform world0 0 64) (drawn_bytes test_platform world0 64 12)
           (Some ''ctx1'') [CHR 0x22, CHR ''h'', CHR ''i'', CHR 0x22]))
   \<and> length (drawn_bytes test_platform world0 0 64) = 64
   \<and> length (drawn_bytes test_platform world0 64 12) = 12
   \<and> spec_salt (spec_envelope test_platform
           (pbkdf2Sync test_platform (Str ''pw'') (drawn_bytes test_platform world0 0 64)
              KEY_ITERATIONS KEY_LENGTH_IN_BYTES KEY_DIGEST)
           (drawn_bytes test_platform world0 0 64) (drawn_bytes test_platform world0 64 12)
           (Some ''ctx1'') [CHR 0x22, CHR ''h'', CHR ''i'', CHR 0x22])
       = drawn_bytes test_platform world0 0 64
   \<and> spec_nonce (spec_envelope test_platform
           (pbkdf2Sync test_platform (Str ''pw'') (drawn_bytes test_platform world0 0 64)
              KEY_ITERATIONS KEY_LENGTH_IN_BYTES KEY_DIGEST)
           (drawn_bytes test_platform world0 0 64) (drawn_bytes test_platform world0 64 12)
           (Some ''ctx1'') [CHR 0x22, CHR ''h'', CHR ''i'', CHR 0x22])
       = drawn_bytes test_platform world0 64 12
   \<and> length (spec_tag (spec_envelope test_platform
           (pbkdf2Sync test_platform (Str ''pw'') (drawn_bytes test_platform world0 0 64)
              KEY_ITERATIONS KEY_LENGTH_IN_BYTES KEY_DIGEST)
           (drawn_bytes test_platform world0 0 64) (drawn_bytes test_platform world0 64 12)
           (Some ''ctx1'') [CHR 0x22, CHR ''h'', CHR ''i'', CHR 0x22])) = 16"
proof -
  have aad: "validateAAD (JSString ''ctx1'') = Inr ()" by simp
  note sealed = Crypto_encrypt_succeeds(1) [OF test_kdf_agrees test_kdf_length test_gcm_accepts
      test_stringify_hi aad, of "Str ''pw''" world0]
  show ?thesis
    using test_gcm_tag_length sealed
      envelope_layout [OF test_gcm_tag_length, where k = "Str ''pw''" and input = "JSString ''hi''"
        and aad = "JSString ''ctx1''" and w = world0 and i = 0 and j = 64
        and salt = "drawn_bytes test_platform world0 0 64"
        and nonce = "drawn_bytes test_platform world0 64 12"
        and key = "pbkdf2Sync test_platform (Str ''pw'') (drawn_bytes test_platform world0 0 64)
              KEY_ITERATIONS KEY_LENGTH_IN_BYTES KEY_DIGEST"
        and a = "Some ''ctx1''" and s = "[CHR 0x22, CHR ''h'', CHR ''i'', CHR 0x22]"
        and env = "base64_encode (spec_envelope test_platform
           (pbkdf2Sync test_platform (Str ''pw'') (drawn_bytes test_platform world0 0 64)
              KEY_ITERATIONS KEY_LENGTH_IN_BYTES KEY_DIGEST)
           (drawn_bytes test_platform world0 0 64) (drawn_bytes test_platform world0 64 12)
           (Some ''ctx1'') [CHR 0x22, CHR ''h'', CHR ''i'', CHR 0x22])"
        and b = "spec_envelope test_platform
           (pbkdf2Sync test_platform (Str ''pw'') (drawn_bytes test_platform world0 0 64)
              KEY_ITERATIONS KEY_LENGTH_IN_BYTES KEY_DIGEST)
           (drawn_bytes test_platform world0 0 64) (drawn_bytes test_platform world0 64 12)
           (Some ''ctx1'') [CHR 0x22, CHR ''h'', CHR ''i'', CHR 0x22]"
        and e = "Str []" and v = JSNull and w' = world0]
    by (auto simp add: length_drawn_bytes simp del: validateAAD.simps)
qed

text \<open>
  C6. When either form of \<open>encrypt\<close> succeeds, the envelope is the base64 text of
  \<open>64 + 12 + 16 + N\<close> bytes, where \<open>N\<close> is the number of bytes of the serialized value
  (the cipher does not pad), and the text has \<open>ceil((92 + N) / 3) * 4\<close> characters.
\<close>

theorem envelope_length:
  assumes "gcm_tag_length P" and "gcm_no_padding P"
    and "json_stringify P input = Some s"
    and "fst (Crypto_encrypt P k input aad w) = Inr env
         \<or> fst (Crypto_encryptSync P k input aad w) = Inr env"
  shows "(\<exists>raw. env = base64_encode raw \<and> length raw = 64 + 12 + 16 + length (utf8_bytes P s))
       \<and> length env = ((64 + 12 + 16 + length (utf8_bytes P s) + 2) div 3) * 4"
proof -
  have len: "length (spec_envelope P key (drawn_bytes P w i 64) (drawn_bytes P w j 12) a s)
               = 64 + 12 + 16 + length (utf8_bytes P s)" for key i j a
  proof -
    have "length (cipher_output P CIPHER_ALGORITHM key (drawn_bytes P w j 12) (utf8_bytes P s))
            = length (utf8_bytes P s)"
      using assms(2) unfolding gcm_no_padding_def by blast
    then show ?thesis
      by (simp add: spec_envelope_def length_drawn_bytes tag_length [OF assms(1)])
  qed
  obtain raw where raw: "env = base64_encode raw"
      "length raw = 64 + 12 + 16 + length (utf8_bytes P s)"
    using assms(3,4) len unfolding Crypto_encrypt_seals Crypto_encryptSync_seals by auto
  then show ?thesis
    by (auto simp add: length_base64_encode)
qed

theorem envelope_length_witness:
  "gcm_tag_length test_platform \<and> gcm_no_padding test_platform
   \<and> json_stringify test_platform (JSString ''hi'') = Some [CHR 0x22, CHR ''h'', CHR ''i'', CHR 0x22]
   \<and> fst (Crypto_encryptSync test_platform (Str ''correct horse battery staple'') (JSString ''hi'')
            JSUndefined world0)
       = Inr (base64_encode (spec_envelope test_platform
           (pbkdf2Sync test_platform (Str ''correct horse battery staple'')
              (drawn_bytes test_platform world0 12 64) KEY_ITERATIONS KEY_LENGTH_IN_BYTES KEY_DIGEST)
           (drawn_bytes test_platform world0 12 64) (drawn_bytes test_platform world0 0 12)
           None [CHR 0x22, CHR ''h'', CHR ''i'', CHR 0x22]))
   \<and> length (base64_encode (spec_envelope test_platform
           (pbkdf2Sync test_platform (Str ''correct horse battery staple'')
              (drawn_bytes test_platform world0 12 64) KEY_ITERATIONS KEY_LENGTH_IN_BYTES KEY_DIGEST)
           (drawn_bytes test_platform world0 12 64) (drawn_bytes test_platform world0 0 12)
           None [CHR 0x22, CHR ''h'', CHR ''i'', CHR 0x22])) = 128"
proof -
  have aad: "validateAAD JSUndefined = Inr ()" by simp
  have n: "length (utf8_bytes test_platform [CHR 0x22, CHR ''h'', CHR ''i'', CHR 0x22]) = 4"
    by (simp add: test_platform_def test_utf8_bytes_def)
  note sealed = Crypto_encrypt_succeeds(2) [OF test_kdf_agrees test_kdf_length test_gcm_accepts
      test_stringify_hi aad, of "Str ''correct horse battery staple''" world0]
  show ?thesis
    using test_gcm_tag_length test_gcm_no_padding test_stringify_hi sealed n
      envelope_length [OF test_gcm_tag_length test_gcm_no_padding test_stringify_hi disjI2 [OF sealed]]
    by (simp del: validateAAD.simps)
qed

section \<open>Envelopes that are too short\<close>

lemma short_fields:
  assumes "length b < 92"
  shows "spec_ciphertext b = []" and "length (spec_tag b) < 16"
proof -
  show "spec_ciphertext b = []"
    using assms slice_short [of b 92] by (simp add: buf_slice_from_nths spec_ciphertext_def)
  have "spec_tag b = take (92 - 76) (drop 76 b)"
    by (simp only: spec_tag_def take_drop_nths)
  then show "length (spec_tag b) < 16" using assms by simp
qed

lemma short_decrypt:
  assumes "gcm_no_padding P" and "empty_text_invalid P" and "length b < 92"
  shows "fst (decrypt P key b a w) =
     (if \<not> cipher_accepts P CIPHER_ALGORITHM key (spec_nonce b)
        then Inl (PrimitiveError ''Invalid key length or IV'')
      else if \<not> tag_accepts P CIPHER_ALGORITHM (spec_tag b)
        then Inl (PrimitiveError ''Invalid authentication tag length'')
      else if \<not> decipher_verifies P CIPHER_ALGORITHM key (spec_nonce b)
                  (map_option (utf8_bytes P) a) [] (spec_tag b)
        then Inl AuthenticationError
      else Inl SyntaxError)"
proof -
  have no_text: "buf_slice_from b 92 = []"
    using assms(3) by (simp add: slice_short)
  have plain: "decipher_output P CIPHER_ALGORITHM key iv [] = []" for iv
  proof -
    have "length (decipher_output P CIPHER_ALGORITHM key iv []) = length ([] :: buffer)"
      using assms(1) unfolding gcm_no_padding_def by blast
    then show ?thesis by simp
  qed
  show ?thesis
    using assms(2)
    by (simp add: decrypt_result no_text plain empty_text_invalid_def Let_def buf_slice_nths
          spec_nonce_def spec_tag_def)
qed

text \<open>
  C10, as the code has it. When the decoded input has fewer than 92 bytes, both forms of
  \<open>decrypt\<close> end in an error and return no value. The slices give an empty ciphertext
  and a tag of fewer than 16 bytes, and after the check of the AAD and the key derivation
  the error is the one the decipher setup throws, the one \<open>setAuthTag\<close> throws, the
  authentication error of the tag check, or, when the runtime takes the short IV and the
  short tag and the tag verifies, the \<open>SyntaxError\<close> of \<open>JSON.parse\<close> on the empty
  plaintext.
\<close>

theorem short_input_rejected:
  assumes "gcm_no_padding P" and "empty_text_invalid P" and "length (asBuffer P env) < 92"
  shows "isl (fst (Crypto_decrypt P k env aad w)) \<and> isl (fst (Crypto_decryptSync P k env aad w))
       \<and> spec_ciphertext (asBuffer P env) = [] \<and> length (spec_tag (asBuffer P env)) < 16
       \<and> fst (decrypt P key (asBuffer P env) a w) =
           (if \<not> cipher_accepts P CIPHER_ALGORITHM key (spec_nonce (asBuffer P env))
              then Inl (PrimitiveError ''Invalid key length or IV'')
            else if \<not> tag_accepts P CIPHER_ALGORITHM (spec_tag (asBuffer P env))
              then Inl (PrimitiveError ''Invalid authentication tag length'')
            else if \<not> decipher_verifies P CIPHER_ALGORITHM key (spec_nonce (asBuffer P env))
                        (map_option (utf8_bytes P) a) [] (spec_tag (asBuffer P env))
              then Inl AuthenticationError
            else Inl SyntaxError)
       \<and> fst (Crypto_decrypt P k env aad w) =
           (case validateAAD aad of
              Inl e \<Rightarrow> Inl e
            | Inr _ \<Rightarrow>
               (case pbkdf2 P k (spec_salt (asBuffer P env)) KEY_ITERATIONS KEY_LENGTH_IN_BYTES
                       KEY_DIGEST of
                  Inl err \<Rightarrow> Inl (PrimitiveError err)
                | Inr key' \<Rightarrow> fst (decrypt P key' (asBuffer P env) (aad_of aad) w)))
       \<and> fst (Crypto_decryptSync P k env aad w) =
           (case validateAAD aad of
              Inl e \<Rightarrow> Inl e
            | Inr _ \<Rightarrow>
                fst (decrypt P
                       (pbkdf2Sync P k (spec_salt (asBuffer P env)) KEY_ITERATIONS
                          KEY_LENGTH_IN_BYTES KEY_DIGEST)
                       (asBuffer P env) (aad_of aad) w))"
proof -
  note dec = short_decrypt [OF assms]
  have "isl (fst (decrypt P key' (asBuffer P env) a' w))" for key' a'
    by (simp add: dec)
  then have "isl (fst (Crypto_decrypt P k env aad w)) \<and> isl (fst (Crypto_decryptSync P k env aad w))"
    by (simp add: Crypto_decrypt_result Crypto_decryptSync_result split: sum.splits del: validateAAD.simps)
  moreover have "fst (Crypto_decrypt P k env aad w) =
           (case validateAAD aad of
              Inl e \<Rightarrow> Inl e
            | Inr _ \<Rightarrow>
               (case pbkdf2 P k (spec_salt (asBuffer P env)) KEY_ITERATIONS KEY_LENGTH_IN_BYTES
                       KEY_DIGEST of
                  Inl err \<Rightarrow> Inl (PrimitiveError err)
                | Inr key' \<Rightarrow> fst (decrypt P key' (asBuffer P env) (aad_of aad) w)))"
    by (simp only: Crypto_decrypt_result buf_slice_nths spec_salt_def)
  moreover have "fst (Crypto_decryptSync P k env aad w) =
           (case validateAAD aad of
              Inl e \<Rightarrow> Inl e
            | Inr _ \<Rightarrow>
                fst (decrypt P
                       (pbkdf2Sync P k (spec_salt (asBuffer P env)) KEY_ITERATIONS
                          KEY_LENGTH_IN_BYTES KEY_DIGEST)
                       (asBuffer P env) (aad_of aad) w))"
    by (simp only: Crypto_decryptSync_result buf_slice_nths spec_salt_def)
  ultimately show ?thesis
    using short_fields [OF assms(3)] dec by (simp only: simp_thms)
qed

text \<open>
  C10, as stated, has the decipher setup or the tag check reject every such input. They
  do not: an input of 80 bytes whose last four bytes are the tag of the empty ciphertext
  cut to four bytes gets past the setup, \<open>setAuthTag\<close> and the tag check, and only
  \<open>JSON.parse\<close> of the empty plaintext throws.
\<close>

theorem truncated_tag_reaches_parser:
  "length (replicate 64 0 @ replicate 12 0 @ [224, 225, 226, 227 :: byte]) < 92
   \<and> cipher_accepts test_platform CIPHER_ALGORITHM
        (pbkdf2Sync test_platform (Str ''pw'') (replicate 64 0) KEY_ITERATIONS KEY_LENGTH_IN_BYTES KEY_DIGEST)
        (replicate 12 0)
   \<and> tag_accepts test_platform CIPHER_ALGORITHM [224, 225, 226, 227]
   \<and> decipher_verifies test_platform CIPHER_ALGORITHM
        (pbkdf2Sync test_platform (Str ''pw'') (replicate 64 0) KEY_ITERATIONS KEY_LENGTH_IN_BYTES KEY_DIGEST)
        (replicate 12 0) None [] [224, 225, 226, 227]
   \<and> fst (Crypto_decrypt test_platform (Str ''pw'')
            (Buf (replicate 64 0 @ replicate 12 0 @ [224, 225, 226, 227])) JSUndefined world0)
       = Inl SyntaxError
   \<and> fst (Crypto_decryptSync test_platform (Str ''pw'')
            (Buf (replicate 64 0 @ replicate 12 0 @ [224, 225, 226, 227])) JSUndefined world0)
       = Inl SyntaxError"
  by code_simp

theorem short_input_rejected_witness:
  "gcm_no_padding test_platform \<and> empty_text_invalid test_platform
   \<and> length (asBuffer test_platform (Str ''c2hvcnQ='')) < 92
   \<and> isl (fst (Crypto_decrypt test_platform (Str ''pw'') (Str ''c2hvcnQ='') JSUndefined world0))
   \<and> isl (fst (Crypto_decryptSync test_platform (Str ''pw'') (Str ''c2hvcnQ='') JSUndefined world0))
   \<and> spec_ciphertext (asBuffer test_platform (Str ''c2hvcnQ='')) = []
   \<and> length (spec_tag (asBuffer test_platform (Str ''c2hvcnQ=''))) < 16"
proof -
  have h: "length (asBuffer test_platform (Str ''c2hvcnQ='')) < 92"
    by (simp add: asBuffer_def test_platform_def Let_def)
  show ?thesis
    using test_gcm_no_padding test_empty_text_invalid h
      short_input_rejected [OF test_gcm_no_padding test_empty_text_invalid h,
        where k = "Str ''pw''" and aad = JSUndefined and w = world0 and key = "[]" and a = None]
    by blast
qed

section \<open>Round trip\<close>

lemma test_utf8_inverse: "test_utf8_string (test_utf8_bytes s) = s"
  by (simp add: test_utf8_bytes_def test_utf8_string_def comp_def unat_of_nat map_idI)

lemma test_serializable: "is_serializable test_platform (JSString ''I am a string'')"
  by (simp add: is_serializable_def test_platform_def test_parse_def test_utf8_inverse)

text \<open>
  C1. On a runtime that meets its contracts, for a codec built by \<open>makeCryptoWith\<close>, a
  serializable value and a valid AAD (a non-empty string, \<open>null\<close> or absent): whatever
  salt and nonce the random source hands out, \<open>encrypt\<close> returns an envelope and
  \<open>decrypt\<close> of that envelope under the same AAD returns the value; the same holds of
  \<open>encryptSync\<close> and \<open>decryptSync\<close>.
\<close>

theorem round_trip:
  assumes codec: "makeCryptoWith P opts = Inr c"
    and kdf: "kdf_agrees P" "kdf_length P"
    and gcm: "gcm_accepts P" "gcm_inverse P" "gcm_tag_length P"
    and b64: "base64_inverse P"
    and v: "is_serializable P v"
    and aad: "validateAAD aad = Inr ()"
  shows "(\<exists>env. fst (encrypt_op c v aad w) = Inr env
              \<and> fst (decrypt_op c (Str env) aad w') = Inr v)
       \<and> (\<exists>env. fst (encryptSync_op c v aad w) = Inr env
              \<and> fst (decryptSync_op c (Str env) aad w') = Inr v)"
proof -
  obtain k where c: "c = \<lparr>encrypt_op = Crypto_encrypt P k, decrypt_op = Crypto_decrypt P k,
      encryptSync_op = Crypto_encryptSync P k, decryptSync_op = Crypto_decryptSync P k\<rparr>"
    using codec_of [OF codec] by blast
  obtain s where s: "json_stringify P v = Some s" "utf8_string P (utf8_bytes P s) = s"
      "json_parse P s = Some v"
    using v by (auto simp add: is_serializable_def split: option.splits)
  have async: "pbkdf2 P k x i n d = Inr (pbkdf2Sync P k x i n d)" for x i n d
    using kdf(1) by (simp add: kdf_agrees_def)
  note opened = seal_then_open [OF gcm(3) gcm(2) b64 s]
  let ?key = "\<lambda>salt. pbkdf2Sync P k salt KEY_ITERATIONS KEY_LENGTH_IN_BYTES KEY_DIGEST"
  let ?a = "spec_envelope P (?key (drawn_bytes P w 0 64)) (drawn_bytes P w 0 64)
              (drawn_bytes P w 64 12) (aad_of aad) s"
  let ?s = "spec_envelope P (?key (drawn_bytes P w 12 64)) (drawn_bytes P w 12 64)
              (drawn_bytes P w 0 12) (aad_of aad) s"
  have acc: "cipher_accepts P CIPHER_ALGORITHM (?key salt) (drawn_bytes P w i 12)" for salt i
    by (rule derived_key_accepted [OF kdf(2) gcm(1) length_drawn_bytes])
  have "fst (Crypto_encrypt P k v aad w) = Inr (base64_encode ?a)"
    by (simp add: Crypto_encrypt_seals aad s async acc del: validateAAD.simps)
  moreover have "fst (Crypto_decrypt P k (Str (base64_encode ?a)) aad w') = Inr v"
    by (simp add: Crypto_decrypt_opens aad async
          opened [OF length_drawn_bytes length_drawn_bytes acc]
          spec_envelope_fields [OF gcm(3) length_drawn_bytes length_drawn_bytes]
          del: validateAAD.simps)
  moreover have "fst (Crypto_encryptSync P k v aad w) = Inr (base64_encode ?s)"
    by (simp add: Crypto_encryptSync_seals aad s acc del: validateAAD.simps)
  moreover have "fst (Crypto_decryptSync P k (Str (base64_encode ?s)) aad w') = Inr v"
    by (simp add: Crypto_decryptSync_opens aad
          opened [OF length_drawn_bytes length_drawn_bytes acc]
          spec_envelope_fields [OF gcm(3) length_drawn_bytes length_drawn_bytes]
          del: validateAAD.simps)
  ultimately show ?thesis
    unfolding c by (simp del: validateAAD.simps)
qed

theorem round_trip_witness:
  "makeCryptoWith test_platform \<lparr>encryptionKey = Some (Str ''no wifi on this plane :('')\<rparr>
     = Inr \<lparr>encrypt_op = Crypto_encrypt test_platform (Str ''no wifi on this plane :(''),
            decrypt_op = Crypto_decrypt test_platform (Str ''no wifi on this plane :(''),
            encryptSync_op = Crypto_encryptSync test_platform (Str ''no wifi on this plane :(''),
            decryptSync_op = Crypto_decryptSync test_platform (Str ''no wifi on this plane :('')\<rparr>
   \<and> kdf_agrees test_platform \<and> kdf_length test_platform \<and> gcm_accepts test_platform
   \<and> gcm_inverse test_platform \<and> gcm_tag_length test_platform \<and> base64_inverse test_platform
   \<and> is_serializable test_platform (JSString ''I am a string'')
   \<and> validateAAD (JSString ''ctx1'') = Inr ()
   \<and> (\<exists>env. fst (Crypto_encrypt test_platform (Str ''no wifi on this plane :('')
                    (JSString ''I am a string'') (JSString ''ctx1'') world0) = Inr env
          \<and> fst (Crypto_decrypt test_platform (Str ''no wifi on this plane :('')
                    (Str env) (JSString ''ctx1'') world0) = Inr (JSString ''I am a string''))
   \<and> (\<exists>env. fst (Crypto_encryptSync test_platform (Str ''no wifi on this plane :('')
                    (JSString ''I am a string'') (JSString ''ctx1'') world0) = Inr env
          \<and> fst (Crypto_decryptSync test_platform (Str ''no wifi on this plane :('')
                    (Str env) (JSString ''ctx1'') world0) = Inr (JSString ''I am a string''))"
proof -
  have codec: "makeCryptoWith test_platform \<lparr>encryptionKey = Some (Str ''no wifi on this plane :('')\<rparr>
     = Inr \<lparr>encrypt_op = Crypto_encrypt test_platform (Str ''no wifi on this plane :(''),
            decrypt_op = Crypto_decrypt test_platform (Str ''no wifi on this plane :(''),
            encryptSync_op = Crypto_encryptSync test_platform (Str ''no wifi on this plane :(''),
            decryptSync_op = Crypto_decryptSync test_platform (Str ''no wifi on this plane :('')\<rparr>"
    by (simp add: makeCryptoWith_def validateOpts_def)
  have aad: "validateAAD (JSString ''ctx1'') = Inr ()" by simp
  show ?thesis
    using codec aad test_kdf_agrees test_kdf_length test_gcm_accepts test_gcm_inverse
      test_gcm_tag_length test_base64_inverse test_serializable
      round_trip [OF codec test_kdf_agrees test_kdf_length test_gcm_accepts test_gcm_inverse
        test_gcm_tag_length test_base64_inverse test_serializable aad, of world0 world0]
    by (simp del: validateAAD.simps)
qed

section \<open>What the authentication rests on\<close>

















end
